theory Spec2Isabelle
  imports Complex_Main "HOL-Library.Char_ord" "HOL-Library.List_Lexorder" "HOL-Library.Multiset"
begin

section \<open>Python values shared by the modules\<close>

subsection \<open>Exceptions\<close>

text \<open>
  The exception classes the downloader raises or catches, with Python's class
  hierarchy. \<open>RequestException\<close>, \<open>HTTPError\<close>, \<open>ReqTimeout\<close> and
  \<open>ReqConnectionError\<close> are the classes of the \<^verbatim>\<open>requests\<close> package
  (\<^verbatim>\<open>raise_for_status\<close> raises \<open>HTTPError\<close> on a non-2xx status);
  \<open>ConnectionError\<close> and \<open>TimeoutError\<close> are the builtins; \<open>MarkupError\<close> is the
  error of the \<^verbatim>\<open>rich\<close> console on text with a stray closing tag. Only subclasses
  of \<open>Exception\<close> are modelled: \<^verbatim>\<open>KeyboardInterrupt\<close> and \<^verbatim>\<open>SystemExit\<close>, which
  no \<^verbatim>\<open>except Exception\<close> catches, are outside the model.
\<close>

datatype exc_class =
    Exception
  | OSError
  | RequestException
  | HTTPError
  | ReqTimeout
  | ReqConnectionError
  | ConnectionError
  | TimeoutError
  | ValueError
  | TypeError
  | AttributeError
  | KeyError
  | ArithmeticError
  | OverflowError
  | ConsoleError
  | MarkupError
  | RetryErrorClass

text \<open>The proper base classes of a class, nearest first (its method resolution order).\<close>

fun bases :: "exc_class \<Rightarrow> exc_class list" where
  "bases Exception = []"
| "bases OSError = [Exception]"
| "bases RequestException = [OSError, Exception]"
| "bases HTTPError = [RequestException, OSError, Exception]"
| "bases ReqTimeout = [RequestException, OSError, Exception]"
| "bases ReqConnectionError = [RequestException, OSError, Exception]"
| "bases ConnectionError = [OSError, Exception]"
| "bases TimeoutError = [OSError, Exception]"
| "bases ValueError = [Exception]"
| "bases TypeError = [Exception]"
| "bases AttributeError = [Exception]"
| "bases KeyError = [Exception]"
| "bases ArithmeticError = [Exception]"
| "bases OverflowError = [ArithmeticError, Exception]"
| "bases ConsoleError = [Exception]"
| "bases MarkupError = [ConsoleError, Exception]"
| "bases RetryErrorClass = [Exception]"

definition issubclass :: "exc_class \<Rightarrow> exc_class \<Rightarrow> bool" where
  "issubclass c d = (c = d \<or> d \<in> set (bases c))"

text \<open>
  An exception value: an ordinary exception of some class with its message, or the
  \<^verbatim>\<open>RetryError\<close> of \<^verbatim>\<open>retry.py\<close>, which records the attempt count of
  its message (\<^verbatim>\<open>max_retries + 1\<close>) and the exception it was raised from.
\<close>

datatype exn =
    Exn exc_class string
  | RetryError int "exn option"

fun class_of :: "exn \<Rightarrow> exc_class" where
  "class_of (Exn c m) = c"
| "class_of (RetryError n cause) = RetryErrorClass"

text \<open>\<^verbatim>\<open>except exceptions as e\<close> with a tuple of classes.\<close>

definition isinstance :: "exn \<Rightarrow> exc_class list \<Rightarrow> bool" where
  "isinstance e classes = list_ex (issubclass (class_of e)) classes"

subsection \<open>Decimal numerals\<close>

definition digit_char :: "nat \<Rightarrow> char" where
  "digit_char d = char_of (48 + d)"

text \<open>\<^verbatim>\<open>str(n)\<close> for a natural number.\<close>

fun str_nat :: "nat \<Rightarrow> string" where
  "str_nat n = (if n < 10 then [digit_char n] else str_nat (n div 10) @ [digit_char (n mod 10)])"

declare str_nat.simps [simp del]

definition str_int :: "int \<Rightarrow> string" where
  "str_int i = (if i < 0 then CHR ''-'' # str_nat (nat (- i)) else str_nat (nat i))"

text \<open>\<^verbatim>\<open>str(e)\<close>: the message of an exception.\<close>

fun str_exn :: "exn \<Rightarrow> string" where
  "str_exn (Exn c m) = m"
| "str_exn (RetryError n cause) =
     ''Failed after '' @ str_int n @ '' attempts. Last error: '' @
     (case cause of None \<Rightarrow> ''None'' | Some e \<Rightarrow> str_exn e)"

section \<open>The retry decorator (\<^verbatim>\<open>src/downloader/retry.py\<close>)\<close>

text \<open>
  The wrapped operation is stateful (a network request): its outcome at the \<open>n\<close>-th
  call (counting from 0) is \<open>func n\<close>, an exception or a value. A run of the wrapper
  yields its own outcome, the number of calls it made and the delays it slept, in order.
  Delays are real numbers standing for Python's floats (a product of a float and a power
  of two is exact).
\<close>

record 'a retry_run =
  outcome :: "exn + 'a"
  calls :: nat
  sleeps :: "real list"

text \<open>
  The notices the program prints with \<^verbatim>\<open>console.print\<close>. The text of an error is
  put into the markup unescaped, so the console may raise instead of printing. What the
  console does with a notice is a parameter of the model: \<open>None\<close> when it prints, or the
  exception it raises.
\<close>

datatype notice =
    AttemptFailed int int exn
  | RetryingIn real
  | AllAttemptsFailed int
  | ImageFailed exn

type_synonym console = "notice \<Rightarrow> exn option"

text \<open>
  \<^verbatim>\<open>time.sleep\<close>: the length is converted to nanoseconds, rounded away from zero,
  and must fit a signed 64-bit integer (\<open>OverflowError\<close> beyond about \<open>9.2e9\<close>
  seconds); a negative length is a \<open>ValueError\<close>.
\<close>

definition time_sleep :: "real \<Rightarrow> exn option" where
  "time_sleep secs =
     (if 2 ^ 63 \<le> \<lceil>\<bar>secs\<bar> * 10 ^ 9\<rceil>
        then Some (Exn OverflowError ''timestamp out of range for platform time_t'')
      else if secs < 0 then Some (Exn ValueError ''sleep length must be non-negative'')
      else None)"

text \<open>
  \<^verbatim>\<open>delay = base_delay * (2 ** attempt)\<close>: the integer power is converted to a
  float, which fails from \<open>2 ** 1024\<close> on.
\<close>

definition backoff_delay :: "real \<Rightarrow> nat \<Rightarrow> exn + real" where
  "backoff_delay base_delay attempt =
     (if 1024 \<le> attempt then Inl (Exn OverflowError ''int too large to convert to float'')
      else Inr (base_delay * 2 ^ attempt))"

text \<open>
  The handler's report of a failed attempt: the callback \<^verbatim>\<open>on_retry(attempt + 1, e)\<close>
  when one is given (its outcome is a parameter), else the two notices.
\<close>

definition announce ::
  "console \<Rightarrow> (int \<Rightarrow> exn \<Rightarrow> exn option) option \<Rightarrow> nat \<Rightarrow> int \<Rightarrow> exn \<Rightarrow> real \<Rightarrow> exn option" where
  "announce console on_retry attempt max_retries e delay =
     (case on_retry of
        Some callback \<Rightarrow> callback (int attempt + 1) e
      | None \<Rightarrow>
          (case console (AttemptFailed (int attempt + 1) (max_retries + 1) e) of
             Some err \<Rightarrow> Some err
           | None \<Rightarrow> console (RetryingIn delay)))"

text \<open>
  The branch \<^verbatim>\<open>if attempt < max_retries\<close> of the handler: compute the delay, report,
  sleep. The result is the delay slept, or the exception that one of the three steps
  raised, which leaves the wrapper.
\<close>

definition before_retry ::
  "console \<Rightarrow> (int \<Rightarrow> exn \<Rightarrow> exn option) option \<Rightarrow> int \<Rightarrow> real \<Rightarrow> nat \<Rightarrow> exn \<Rightarrow> exn + real" where
  "before_retry console on_retry max_retries base_delay attempt e =
     (case backoff_delay base_delay attempt of
        Inl err \<Rightarrow> Inl err
      | Inr delay \<Rightarrow>
          (case announce console on_retry attempt max_retries e delay of
             Some err \<Rightarrow> Inl err
           | None \<Rightarrow> (case time_sleep delay of Some err \<Rightarrow> Inl err | None \<Rightarrow> Inr delay)))"

text \<open>
  The loop \<^verbatim>\<open>for attempt in range(max_retries + 1)\<close>, over the attempts still to
  run. \<open>n\<close> counts the calls made so far and \<open>sl\<close> the delays slept so far. An
  exception outside \<open>exceptions\<close> leaves the wrapper at once, and so does one raised
  inside the handler.
\<close>

fun retry_loop ::
  "console \<Rightarrow> (int \<Rightarrow> exn \<Rightarrow> exn option) option \<Rightarrow> int \<Rightarrow> real \<Rightarrow> exc_class list \<Rightarrow>
   (nat \<Rightarrow> exn + 'a) \<Rightarrow> nat list \<Rightarrow> exn option \<Rightarrow> nat \<Rightarrow> real list \<Rightarrow> 'a retry_run" where
  "retry_loop console on_retry max_retries base_delay exceptions func [] last_exception n sl =
     \<lparr>outcome = Inl (RetryError (max_retries + 1) last_exception), calls = n, sleeps = sl\<rparr>"
| "retry_loop console on_retry max_retries base_delay exceptions func (attempt # rest)
     last_exception n sl =
     (case func n of
        Inr v \<Rightarrow> \<lparr>outcome = Inr v, calls = Suc n, sleeps = sl\<rparr>
      | Inl e \<Rightarrow>
          if isinstance e exceptions then
            if int attempt < max_retries then
              (case before_retry console on_retry max_retries base_delay attempt e of
                 Inl err \<Rightarrow> \<lparr>outcome = Inl err, calls = Suc n, sleeps = sl\<rparr>
               | Inr delay \<Rightarrow>
                   retry_loop console on_retry max_retries base_delay exceptions func rest
                     (Some e) (Suc n) (sl @ [delay]))
            else
              (case console (AllAttemptsFailed (max_retries + 1)) of
                 Some err \<Rightarrow> \<lparr>outcome = Inl err, calls = Suc n, sleeps = sl\<rparr>
               | None \<Rightarrow>
                   retry_loop console on_retry max_retries base_delay exceptions func rest
                     (Some e) (Suc n) sl)
          else \<lparr>outcome = Inl e, calls = Suc n, sleeps = sl\<rparr>)"

text \<open>\<^verbatim>\<open>range(k)\<close> is empty for \<open>k \<le> 0\<close>.\<close>

definition py_range :: "int \<Rightarrow> nat list" where
  "py_range k = [0 ..< nat k]"

definition with_retry ::
  "console \<Rightarrow> (int \<Rightarrow> exn \<Rightarrow> exn option) option \<Rightarrow> int \<Rightarrow> real \<Rightarrow> exc_class list \<Rightarrow>
   (nat \<Rightarrow> exn + 'a) \<Rightarrow> 'a retry_run" where
  "with_retry console on_retry max_retries base_delay exceptions func =
     retry_loop console on_retry max_retries base_delay exceptions func
       (py_range (max_retries + 1)) None 0 []"

definition request_exceptions :: "exc_class list" where
  "request_exceptions =
     [RequestException, ReqTimeout, ReqConnectionError, ConnectionError, TimeoutError]"

definition retry_request :: "console \<Rightarrow> int \<Rightarrow> real \<Rightarrow> (nat \<Rightarrow> exn + 'a) \<Rightarrow> 'a retry_run" where
  "retry_request console max_retries base_delay func =
     with_retry console None max_retries base_delay request_exceptions func"

text \<open>The total time slept during a run.\<close>

definition total_sleep :: "'a retry_run \<Rightarrow> real" where
  "total_sleep r = sum_list (sleeps r)"

text \<open>An operation that fails \<open>f\<close> times with errors \<open>errs\<close> and then returns \<open>v\<close>.\<close>

definition fails_then_succeeds :: "exn list \<Rightarrow> 'a \<Rightarrow> nat \<Rightarrow> exn + 'a" where
  "fails_then_succeeds errs v n = (if n < length errs then Inl (errs ! n) else Inr v)"

text \<open>
  A console that prints every notice, and one that raises, as \<^verbatim>\<open>rich\<close> does, on an
  error whose text holds a closing tag.
\<close>

definition plain_console :: console where
  "plain_console notice = None"

definition has_closing_tag :: "string \<Rightarrow> bool" where
  "has_closing_tag s = list_ex (\<lambda>i. take 2 (drop i s) = ''[/'') [0 ..< length s]"

definition strict_console :: console where
  "strict_console notice =
     (case notice of
        AttemptFailed a m e \<Rightarrow>
          if has_closing_tag (str_exn e)
          then Some (Exn MarkupError ''closing tag does not match any open tag'') else None
      | ImageFailed e \<Rightarrow>
          if has_closing_tag (str_exn e)
          then Some (Exn MarkupError ''closing tag does not match any open tag'') else None
      | _ \<Rightarrow> None)"

section \<open>Strings and paths\<close>

text \<open>
  Strings are lists of bytes; the character tests below are Python's on the ASCII range.
  \<^verbatim>\<open>str.isspace\<close>: tab, line feed, vertical tab, form feed, carriage return, the
  four separators \<^verbatim>\<open>\x1c\<close> to \<^verbatim>\<open>\x1f\<close> and the space.
\<close>

definition isspace :: "char \<Rightarrow> bool" where
  "isspace c = (let n = (of_char c :: nat) in (9 \<le> n \<and> n \<le> 13) \<or> (28 \<le> n \<and> n \<le> 32))"

definition isdigit :: "char \<Rightarrow> bool" where
  "isdigit c = (let n = (of_char c :: nat) in 48 \<le> n \<and> n \<le> 57)"

definition isalnum :: "char \<Rightarrow> bool" where
  "isalnum c = (let n = (of_char c :: nat) in
     (48 \<le> n \<and> n \<le> 57) \<or> (65 \<le> n \<and> n \<le> 90) \<or> (97 \<le> n \<and> n \<le> 122))"

definition lstrip :: "string \<Rightarrow> string" where
  "lstrip s = dropWhile isspace s"

definition rstrip :: "string \<Rightarrow> string" where
  "rstrip s = rev (dropWhile isspace (rev s))"

definition strip :: "string \<Rightarrow> string" where
  "strip s = rstrip (lstrip s)"

text \<open>\<^verbatim>\<open>s.rfind(c)\<close>: the last index of \<open>c\<close>, or \<open>-1\<close>.\<close>

fun rfind_from :: "char \<Rightarrow> string \<Rightarrow> int \<Rightarrow> int \<Rightarrow> int" where
  "rfind_from c [] i found = found"
| "rfind_from c (x # xs) i found = rfind_from c xs (i + 1) (if x = c then i else found)"

definition rfind :: "string \<Rightarrow> char \<Rightarrow> int" where
  "rfind s c = rfind_from c s 0 (- 1)"

text \<open>\<^verbatim>\<open>s[i:j]\<close> for indices within the string.\<close>

definition slice :: "string \<Rightarrow> int \<Rightarrow> int \<Rightarrow> string" where
  "slice s i j = take (nat j - nat i) (drop (nat i) s)"

text \<open>
  \<^verbatim>\<open>os.path.splitext\<close> on POSIX: the extension starts at the last dot of the last
  path component, unless that component has only dots before it.
\<close>

definition splitext :: "string \<Rightarrow> string \<times> string" where
  "splitext p =
     (let sepIndex = rfind p (CHR ''/'');
          dotIndex = rfind p (CHR ''.'')
      in if dotIndex > sepIndex \<and> list_ex (\<lambda>c. c \<noteq> CHR ''.'') (slice p (sepIndex + 1) dotIndex)
         then (take (nat dotIndex) p, drop (nat dotIndex) p)
         else (p, []))"

text \<open>
  A path is the list of its components; \<^verbatim>\<open>p / s\<close> appends one component (the
  names joined here hold no separator), and joining the empty string changes nothing.
\<close>

type_synonym path = "string list"

definition joinpath :: "path \<Rightarrow> string \<Rightarrow> path" where
  "joinpath p s = (if s = [] then p else p @ [s])"

section \<open>The download manager (\<^verbatim>\<open>src/downloader/manager.py\<close>)\<close>

record Chapter =
  title :: string
  url :: string
  number :: "string option"

record Config =
  output_dir :: string
  output_format :: string
  keep_images :: bool
  max_chapter_workers :: int
  max_image_workers :: int
  retry_count :: int
  retry_base_delay :: real

record DownloadResult =
  success :: bool
  path :: "path option"
  error :: "string option"
  images_count :: nat

text \<open>
  What the manager reaches outside the program: the chapter scraper (its outcome for
  a chapter URL), the file system (\<^verbatim>\<open>mkdir\<close> and writing a file, each failing with an
  exception or not), the HTTP client (the outcome of the \<open>n\<close>-th \<^verbatim>\<open>requests.get\<close>
  of a URL, \<^verbatim>\<open>raise_for_status\<close> included), \<^verbatim>\<open>urlparse(url).path\<close> (which raises
  \<open>ValueError\<close> on a malformed URL), the console the notices are printed on, and the
  order in which \<^verbatim>\<open>as_completed\<close> yields \<open>k\<close> futures (indices into the
  submission order).
\<close>

record world =
  scrape_chapter_images :: "string \<Rightarrow> exn + string list"
  mkdir :: "path \<Rightarrow> exn option"
  fetch :: "string \<Rightarrow> nat \<Rightarrow> exn + string"
  write_file :: "path \<Rightarrow> string \<Rightarrow> exn option"
  urlparse_path :: "string \<Rightarrow> exn + string"
  console_print :: console
  arrival :: "nat \<Rightarrow> nat list"

text \<open>
  The progress display a caller may pass in. The outcome of
  \<^verbatim>\<open>add_task(description, total)\<close> is a parameter of the model: the id of the new
  task, or an exception (the call redraws the display). \<^verbatim>\<open>update\<close> on a task the
  function has created itself changes what is displayed and nothing else; it is not
  modelled.
\<close>

record Progress =
  add_task :: "string \<Rightarrow> nat \<Rightarrow> exn + nat"

definition as_completed :: "world \<Rightarrow> 'a list \<Rightarrow> 'a list" where
  "as_completed w futures = map (\<lambda>i. futures ! i) (arrival w (length futures))"

text \<open>\<^verbatim>\<open>as_completed\<close> yields every future once.\<close>

definition yields_each_once :: "world \<Rightarrow> nat \<Rightarrow> bool" where
  "yields_each_once w k = (mset (arrival w k) = mset [0 ..< k])"

text \<open>
  What a call did, in program order: the observable steps of a chapter download. An
  image download is recorded with its URL, the path it saves to and its outcome.
\<close>

datatype effect =
    Scraped string
  | MadeDir path
  | Downloaded string path "exn + bool"

text \<open>
  The handler of \<^verbatim>\<open>download_image\<close>, \<^verbatim>\<open>except Exception as e\<close>: it prints the
  error and returns \<open>False\<close>. When printing raises, that exception leaves
  \<^verbatim>\<open>download_image\<close>.
\<close>

definition image_failed :: "world \<Rightarrow> exn \<Rightarrow> exn + bool" where
  "image_failed w e =
     (if isinstance e [Exception] then
        (case console_print w (ImageFailed e) of Some err \<Rightarrow> Inl err | None \<Rightarrow> Inr False)
      else Inl e)"

text \<open>
  \<^verbatim>\<open>download_image\<close>: fetch with retries, then create the parent directory and write
  the file.
\<close>

definition download_image :: "Config \<Rightarrow> world \<Rightarrow> string \<Rightarrow> path \<Rightarrow> exn + bool" where
  "download_image config w image_url save_path =
     (case outcome (retry_request (console_print w) (retry_count config) (retry_base_delay config)
                      (fetch w image_url)) of
        Inl e \<Rightarrow> image_failed w e
      | Inr content \<Rightarrow>
          (case mkdir w (butlast save_path) of
             Some e \<Rightarrow> image_failed w e
           | None \<Rightarrow>
               (case write_file w save_path content of
                  Some e \<Rightarrow> image_failed w e
                | None \<Rightarrow> Inr True)))"

text \<open>\<^verbatim>\<open>f"{i:03d}"\<close>: the decimal numeral, padded on the left with zeros to width 3.\<close>

definition fmt_03d :: "nat \<Rightarrow> string" where
  "fmt_03d i = replicate (3 - length (str_nat i)) (CHR ''0'') @ str_nat i"

text \<open>\<^verbatim>\<open>os.path.splitext(urlparse(url).path)[1] or ".jpg"\<close>.\<close>

definition image_ext :: "world \<Rightarrow> string \<Rightarrow> exn + string" where
  "image_ext w image_url =
     (case urlparse_path w image_url of
        Inl e \<Rightarrow> Inl e
      | Inr p \<Rightarrow> (let ext = snd (splitext p) in Inr (if ext = [] then ''.jpg'' else ext)))"

text \<open>
  The loop \<^verbatim>\<open>for i, url in enumerate(image_urls, start=1)\<close>, from index \<open>i\<close> on: it
  names the file of each URL and submits its download. A future is recorded with its
  URL, its file name and the outcome of its download. The loop ends at the first URL
  that \<^verbatim>\<open>urlparse\<close> rejects, with that exception and the futures submitted so far.
\<close>

type_synonym future = "string \<times> string \<times> (exn + bool)"

fun submit_images ::
  "Config \<Rightarrow> world \<Rightarrow> path \<Rightarrow> nat \<Rightarrow> string list \<Rightarrow> future list \<Rightarrow>
   exn option \<times> future list" where
  "submit_images config w chapter_path i [] futures = (None, futures)"
| "submit_images config w chapter_path i (image_url # rest) futures =
     (case image_ext w image_url of
        Inl e \<Rightarrow> (Some e, futures)
      | Inr ext \<Rightarrow>
          (let filename = fmt_03d i @ ext;
               save_path = joinpath chapter_path filename;
               future = (image_url, filename, download_image config w image_url save_path)
           in submit_images config w chapter_path (i + 1) rest (futures @ [future])))"

text \<open>The file names the loop has given, each with its URL, in submission order.\<close>

definition image_filenames :: "future list \<Rightarrow> (string \<times> string) list" where
  "image_filenames futures = map (\<lambda>(image_url, filename, result). (filename, image_url)) futures"

text \<open>\<^verbatim>\<open>ThreadPoolExecutor(max_workers=n)\<close> refuses a worker count below 1.\<close>

definition ThreadPoolExecutor :: "int \<Rightarrow> exn option" where
  "ThreadPoolExecutor max_workers =
     (if max_workers \<le> 0 then Some (Exn ValueError ''max_workers must be greater than 0'') else None)"

text \<open>
  The loop over \<^verbatim>\<open>as_completed(futures)\<close> that counts the successful downloads. A
  future that raised is passed over (\<^verbatim>\<open>except Exception: pass\<close>; every exception of
  this development is of class \<open>Exception\<close>).
\<close>

fun count_successful :: "(exn + bool) list \<Rightarrow> nat \<Rightarrow> nat" where
  "count_successful [] successful_downloads = successful_downloads"
| "count_successful (Inr result # rest) successful_downloads =
     count_successful rest (if result then successful_downloads + 1 else successful_downloads)"
| "count_successful (Inl e # rest) successful_downloads =
     count_successful rest successful_downloads"

definition failure :: "exn \<Rightarrow> DownloadResult" where
  "failure e = \<lparr>success = False, path = None, error = Some (str_exn e), images_count = 0\<rparr>"

definition sanitize :: "char list \<Rightarrow> string \<Rightarrow> string" where
  "sanitize keep s = strip (filter (\<lambda>c. isalnum c \<or> c \<in> set keep) s)"

definition chapter_path_of :: "Config \<Rightarrow> Chapter \<Rightarrow> string \<Rightarrow> path" where
  "chapter_path_of config chapter manga_title =
     (let safe_title = sanitize '' -_'' manga_title;
          chapter_folder = (case number chapter of
                              None \<Rightarrow> title chapter
                            | Some n \<Rightarrow> if n = [] then title chapter else n);
          chapter_folder = sanitize '' -_.'' chapter_folder
      in joinpath (joinpath [output_dir config] safe_title) (''Chapter '' @ chapter_folder))"

definition download_effects :: "path \<Rightarrow> future list \<Rightarrow> effect list" where
  "download_effects chapter_path futures =
     map (\<lambda>(image_url, filename, result).
            Downloaded image_url (joinpath chapter_path filename) result) futures"

text \<open>
  The pool of \<^verbatim>\<open>download_chapter_images\<close>, from the \<^verbatim>\<open>with\<close> statement to the
  result: the submission loop and the counting loop. Leaving the \<^verbatim>\<open>with\<close> block
  waits for every submitted download, also when the submission loop has raised; the
  downloads are listed in submission order.
\<close>

definition download_pool ::
  "Config \<Rightarrow> world \<Rightarrow> path \<Rightarrow> string list \<Rightarrow> (exn + DownloadResult) \<times> effect list" where
  "download_pool config w chapter_path image_urls =
     (case ThreadPoolExecutor (max_image_workers config) of
        Some e \<Rightarrow> (Inl e, [])
      | None \<Rightarrow>
          (case submit_images config w chapter_path 1 image_urls [] of
             (Some e, futures) \<Rightarrow> (Inl e, download_effects chapter_path futures)
           | (None, futures) \<Rightarrow>
               (let successful_downloads =
                      count_successful
                        (map (\<lambda>(image_url, filename, result). result) (as_completed w futures)) 0
                in (Inr \<lparr>success = (successful_downloads = length image_urls),
                         path = Some chapter_path, error = None,
                         images_count = successful_downloads\<rparr>,
                    download_effects chapter_path futures))))"

text \<open>
  The body of the \<^verbatim>\<open>try\<close> statement of \<^verbatim>\<open>download_chapter_images\<close>, with the
  steps it performed: its outcome is the result it returns or the exception it raises.
\<close>

definition download_chapter_images_try ::
  "Config \<Rightarrow> world \<Rightarrow> Chapter \<Rightarrow> string \<Rightarrow> Progress option \<Rightarrow>
   (exn + DownloadResult) \<times> effect list" where
  "download_chapter_images_try config w chapter manga_title progress =
     (case scrape_chapter_images w (url chapter) of
        Inl e \<Rightarrow> (Inl e, [Scraped (url chapter)])
      | Inr image_urls \<Rightarrow>
          if image_urls = [] then
            (Inr \<lparr>success = False, path = None, error = Some ''No images found in chapter'',
                  images_count = 0\<rparr>,
             [Scraped (url chapter)])
          else
            (let chapter_path = chapter_path_of config chapter manga_title in
             case mkdir w chapter_path of
               Some e \<Rightarrow> (Inl e, [Scraped (url chapter), MadeDir chapter_path])
             | None \<Rightarrow>
                 (case (case progress of
                          None \<Rightarrow> Inr None
                        | Some p \<Rightarrow>
                            (case add_task p (title chapter) (length image_urls) of
                               Inl e \<Rightarrow> Inl e
                             | Inr t \<Rightarrow> Inr (Some t))) of
                    Inl e \<Rightarrow> (Inl e, [Scraped (url chapter), MadeDir chapter_path])
                  | Inr image_task \<Rightarrow>
                      (let (result, effects) =
                             download_pool config w chapter_path image_urls
                       in (result, [Scraped (url chapter), MadeDir chapter_path] @ effects)))))"

text \<open>
  \<^verbatim>\<open>download_chapter_images\<close>: the \<^verbatim>\<open>try\<close> body under its handler
  \<^verbatim>\<open>except Exception as e\<close>, which returns a failure result carrying \<open>str(e)\<close>.
\<close>

definition download_chapter_images ::
  "Config \<Rightarrow> world \<Rightarrow> Chapter \<Rightarrow> string \<Rightarrow> Progress option \<Rightarrow>
   (exn + DownloadResult) \<times> effect list" where
  "download_chapter_images config w chapter manga_title progress =
     (case download_chapter_images_try config w chapter manga_title progress of
        (Inl e, effects) \<Rightarrow>
          if isinstance e [Exception] then (Inr (failure e), effects) else (Inl e, effects)
      | (Inr result, effects) \<Rightarrow> (Inr result, effects))"

text \<open>The image downloads a call performed, and those of them that succeeded.\<close>

fun downloads_of :: "effect list \<Rightarrow> (exn + bool) list" where
  "downloads_of [] = []"
| "downloads_of (Downloaded u p ok # es) = ok # downloads_of es"
| "downloads_of (e # es) = downloads_of es"

definition succeeded :: "effect list \<Rightarrow> nat" where
  "succeeded es = length (filter (\<lambda>result. result = Inr True) (downloads_of es))"

subsection \<open>A concrete configuration and world\<close>

text \<open>The defaults of \<^verbatim>\<open>constants.py\<close>, and \<^verbatim>\<open>Config()\<close>.\<close>

definition DEFAULT_OUTPUT_DIR :: string where "DEFAULT_OUTPUT_DIR = ''./downloads''"
definition DEFAULT_OUTPUT_FORMAT :: string where "DEFAULT_OUTPUT_FORMAT = ''images''"
definition DEFAULT_KEEP_IMAGES :: bool where "DEFAULT_KEEP_IMAGES = True"
definition DEFAULT_MAX_CHAPTER_WORKERS :: int where "DEFAULT_MAX_CHAPTER_WORKERS = 3"
definition DEFAULT_MAX_IMAGE_WORKERS :: int where "DEFAULT_MAX_IMAGE_WORKERS = 5"
definition DEFAULT_RETRY_COUNT :: int where "DEFAULT_RETRY_COUNT = 3"
definition DEFAULT_RETRY_BASE_DELAY :: real where "DEFAULT_RETRY_BASE_DELAY = 2"

definition default_config :: Config where
  "default_config =
     \<lparr>output_dir = DEFAULT_OUTPUT_DIR, output_format = DEFAULT_OUTPUT_FORMAT,
      keep_images = DEFAULT_KEEP_IMAGES, max_chapter_workers = DEFAULT_MAX_CHAPTER_WORKERS,
      max_image_workers = DEFAULT_MAX_IMAGE_WORKERS, retry_count = DEFAULT_RETRY_COUNT,
      retry_base_delay = DEFAULT_RETRY_BASE_DELAY\<rparr>"

text \<open>
  A site with four chapters: the first has two pages, the second none, the page of the
  third cannot be reached, and the second image URL of the fourth is malformed. The
  image URLs listed in \<open>broken\<close> answer 404; the file system and the console never
  fail; futures complete in the reverse of the submission order.
\<close>

definition example_world :: "string list \<Rightarrow> world" where
  "example_world broken =
     \<lparr>scrape_chapter_images =
        (\<lambda>u. if u = ''https://mangapill.com/chapters/1''
               then Inr [''https://cdn/1/a.png'', ''https://cdn/1/b'']
             else if u = ''https://mangapill.com/chapters/2'' then Inr []
             else if u = ''https://mangapill.com/chapters/4''
               then Inr [''https://cdn/1/a.png'', ''https://[bad/2.png'']
             else Inl (RetryError 4 (Some (Exn ReqConnectionError ''unreachable'')))),
      mkdir = (\<lambda>p. None),
      fetch = (\<lambda>u n. if u \<in> set broken then Inl (Exn HTTPError ''404 Client Error'')
                      else Inr ''bytes''),
      write_file = (\<lambda>p content. None),
      urlparse_path = (\<lambda>u. if u = ''https://[bad/2.png''
                             then Inl (Exn ValueError ''Invalid IPv6 URL'')
                           else Inr (drop 11 u)),
      console_print = plain_console,
      arrival = (\<lambda>k. rev [0 ..< k])\<rparr>"

definition example_chapter :: "string \<Rightarrow> Chapter" where
  "example_chapter n =
     \<lparr>title = ''Chapter '' @ n, url = ''https://mangapill.com/chapters/'' @ n, number = Some n\<rparr>"

section \<open>The chapter selection parser (\<^verbatim>\<open>src/cli/prompts.py\<close>)\<close>

text \<open>\<^verbatim>\<open>s.split(",")\<close>: the pieces between the commas, at least one.\<close>

fun split_comma :: "string \<Rightarrow> string list" where
  "split_comma [] = [[]]"
| "split_comma (c # cs) =
     (if c = CHR '','' then [] # split_comma cs
      else (case split_comma cs of p # ps \<Rightarrow> (c # p) # ps | [] \<Rightarrow> [[c]]))"

text \<open>The value of a string of decimal digits.\<close>

definition int_of_digits :: "string \<Rightarrow> int" where
  "int_of_digits ds = foldl (\<lambda>n c. 10 * n + (int (of_char c) - 48)) 0 ds"

text \<open>
  \<^verbatim>\<open>re.match(r"(\d+)\s*-\s*(\d+)", part)\<close>: the two groups, matched at the start of
  the string; what follows the second number is not looked at. The three character
  classes are disjoint, so the greedy match is the only one.
\<close>

definition match_range :: "string \<Rightarrow> (string \<times> string) option" where
  "match_range part =
     (let g1 = takeWhile isdigit part;
          r1 = dropWhile isspace (dropWhile isdigit part)
      in if g1 = [] then None
         else (case r1 of
                 [] \<Rightarrow> None
               | c # r2 \<Rightarrow>
                   if c \<noteq> CHR ''-'' then None
                   else (let g2 = takeWhile isdigit (dropWhile isspace r2)
                         in if g2 = [] then None else Some (g1, g2))))"

text \<open>
  \<^verbatim>\<open>int(s)\<close> on ASCII text: surrounding whitespace, a sign, and decimal digits that
  may be grouped by single underscores; \<open>None\<close> stands for the \<open>ValueError\<close>.
\<close>

fun grouped_digits :: "string \<Rightarrow> bool" where
  "grouped_digits [] = False"
| "grouped_digits [c] = isdigit c"
| "grouped_digits (c # d # cs) =
     (isdigit c \<and> (if d = CHR ''_'' then grouped_digits cs else grouped_digits (d # cs)))"

definition py_int :: "string \<Rightarrow> int option" where
  "py_int s =
     (let t = strip s;
          (sign, body) = (case t of
                            [] \<Rightarrow> (1, [])
                          | c # cs \<Rightarrow> if c = CHR ''+'' then (1, cs)
                                      else if c = CHR ''-'' then (- 1, cs) else (1, t))
      in if grouped_digits body then Some (sign * int_of_digits (filter isdigit body)) else None)"

text \<open>
  The body of the loop \<^verbatim>\<open>for part in parts\<close> for one part: the new index set, or the
  exception raised. In the branch of a single number the \<^verbatim>\<open>try\<close> block holds both
  \<^verbatim>\<open>int(part)\<close> and the bounds check, and \<^verbatim>\<open>except ValueError\<close> replaces whatever
  \<open>ValueError\<close> was raised there.
\<close>

definition parse_part :: "string \<Rightarrow> int \<Rightarrow> int set \<Rightarrow> exn + int set" where
  "parse_part raw total' indices =
     (let part = strip raw in
      if CHR ''-'' \<in> set part then
        (case match_range part of
           None \<Rightarrow> Inl (Exn ValueError (''Invalid range: '' @ part))
         | Some (g1, g2) \<Rightarrow>
             (let start = int_of_digits g1; end' = int_of_digits g2 in
              if start < 1 \<or> end' > total' then
                Inl (Exn ValueError (''Range '' @ str_int start @ ''-'' @ str_int end' @
                       '' out of bounds (1-'' @ str_int total' @ '')''))
              else if start > end' then
                Inl (Exn ValueError (''Invalid range: '' @ str_int start @ '' > '' @ str_int end'))
              else Inr (indices \<union> {start - 1 ..< end'})))
      else
        (case (case py_int part of
                 None \<Rightarrow> Inl (Exn ValueError (''invalid literal for int() with base 10: '' @ part))
               | Some num \<Rightarrow>
                   if num < 1 \<or> num > total' then
                     Inl (Exn ValueError (''Chapter '' @ str_int num @ '' out of bounds (1-'' @
                            str_int total' @ '')''))
                   else Inr (insert (num - 1) indices)) of
           Inl e \<Rightarrow>
             if isinstance e [ValueError]
             then Inl (Exn ValueError (''Invalid chapter number: '' @ part))
             else Inl e
         | Inr indices' \<Rightarrow> Inr indices'))"

fun parse_parts :: "string list \<Rightarrow> int \<Rightarrow> int set \<Rightarrow> exn + int set" where
  "parse_parts [] total' indices = Inr indices"
| "parse_parts (part # parts) total' indices =
     (case parse_part part total' indices of
        Inl e \<Rightarrow> Inl e
      | Inr indices' \<Rightarrow> parse_parts parts total' indices')"

definition parse_chapter_selection :: "string \<Rightarrow> int \<Rightarrow> exn + int list" where
  "parse_chapter_selection selection total' =
     (case parse_parts (split_comma selection) total' {} of
        Inl e \<Rightarrow> Inl e
      | Inr indices \<Rightarrow> Inr (sorted_list_of_set indices))"

section \<open>Configuration (\<^verbatim>\<open>src/config.py\<close> and the settings menu)\<close>

text \<open>
  The JSON object read from \<^verbatim>\<open>config.json\<close>: each key is absent or holds a value.
  Values are taken to have the type the dataclass declares for the field; Python itself
  checks nothing.
\<close>

record config_data =
  output_dir_entry :: "string option"
  output_format_entry :: "string option"
  keep_images_entry :: "bool option"
  max_chapter_workers_entry :: "int option"
  max_image_workers_entry :: "int option"
  retry_count_entry :: "int option"
  retry_base_delay_entry :: "real option"

text \<open>\<^verbatim>\<open>data.get(key, default)\<close>.\<close>

definition dict_get :: "'a option \<Rightarrow> 'a \<Rightarrow> 'a" where
  "dict_get entry default_value = (case entry of None \<Rightarrow> default_value | Some v \<Rightarrow> v)"

definition from_dict :: "config_data \<Rightarrow> Config" where
  "from_dict data =
     \<lparr>output_dir = dict_get (output_dir_entry data) DEFAULT_OUTPUT_DIR,
      output_format = dict_get (output_format_entry data) DEFAULT_OUTPUT_FORMAT,
      keep_images = dict_get (keep_images_entry data) DEFAULT_KEEP_IMAGES,
      max_chapter_workers = dict_get (max_chapter_workers_entry data) DEFAULT_MAX_CHAPTER_WORKERS,
      max_image_workers = dict_get (max_image_workers_entry data) DEFAULT_MAX_IMAGE_WORKERS,
      retry_count = dict_get (retry_count_entry data) DEFAULT_RETRY_COUNT,
      retry_base_delay = dict_get (retry_base_delay_entry data) DEFAULT_RETRY_BASE_DELAY\<rparr>"

text \<open>
  The configuration file: missing, unreadable or not JSON (\<^verbatim>\<open>IOError\<close>,
  \<^verbatim>\<open>JSONDecodeError\<close>), or holding an object.
\<close>

datatype config_file = Missing | Corrupted | Holds config_data

fun load_config :: "config_file \<Rightarrow> Config" where
  "load_config Missing = default_config"
| "load_config Corrupted = default_config"
| "load_config (Holds data) = from_dict data"

text \<open>
  One round of \<^verbatim>\<open>prompt_settings_menu\<close>: the option chosen, with the value the user
  typed. For the retry delay the value is the parsed float, or \<open>None\<close> when
  \<^verbatim>\<open>float(delay)\<close> raises \<open>ValueError\<close>.
\<close>

datatype menu_choice =
    SaveAndExit
  | OutputDirectory string
  | OutputFormat string
  | KeepImages bool
  | MaxChapterWorkers int
  | MaxImageWorkers int
  | RetryCount int
  | RetryBaseDelay "real option"

fun apply_choice :: "Config \<Rightarrow> menu_choice \<Rightarrow> Config" where
  "apply_choice config SaveAndExit = config"
| "apply_choice config (OutputDirectory d) = config\<lparr>output_dir := d\<rparr>"
| "apply_choice config (OutputFormat f) = config\<lparr>output_format := f\<rparr>"
| "apply_choice config (KeepImages k) = config\<lparr>keep_images := k\<rparr>"
| "apply_choice config (MaxChapterWorkers n) = config\<lparr>max_chapter_workers := max 1 (min 10 n)\<rparr>"
| "apply_choice config (MaxImageWorkers n) = config\<lparr>max_image_workers := max 1 (min 20 n)\<rparr>"
| "apply_choice config (RetryCount n) = config\<lparr>retry_count := max 1 (min 10 n)\<rparr>"
| "apply_choice config (RetryBaseDelay None) = config"
| "apply_choice config (RetryBaseDelay (Some d)) = config\<lparr>retry_base_delay := d\<rparr>"

text \<open>
  The menu loop over the user's choices; it ends at the first \<open>SaveAndExit\<close> (here also
  when the input ends) and returns the modified configuration.
\<close>

fun prompt_settings_menu :: "Config \<Rightarrow> menu_choice list \<Rightarrow> Config" where
  "prompt_settings_menu config [] = config"
| "prompt_settings_menu config (SaveAndExit # rest) = config"
| "prompt_settings_menu config (choice # rest) = prompt_settings_menu (apply_choice config choice) rest"

text \<open>The worker fields of a configuration the download engine can use.\<close>

definition workers_valid :: "Config \<Rightarrow> bool" where
  "workers_valid config = (max_chapter_workers config \<ge> 1 \<and> max_image_workers config \<ge> 1)"

section \<open>The download worker of the GUI (\<^verbatim>\<open>gui/bridge.py\<close>)\<close>

text \<open>
  \<^verbatim>\<open>DownloadWorker.run\<close> runs in one thread, the chapter units
  (\<^verbatim>\<open>_download_single_chapter\<close>) run in the threads of a pool, and the user
  interface may call \<^verbatim>\<open>cancel\<close> at any moment, between any two statements of the
  other threads. The model is an interleaving of steps, chosen by a schedule; a step
  reads or writes the flag \<^verbatim>\<open>_is_cancelled\<close> at most once.

  The main thread is at one of these points: at the head of the submission loop; at
  the test \<^verbatim>\<open>if self._is_cancelled: break\<close> of that loop, for the next chapter; at
  \<^verbatim>\<open>executor.submit\<close>, the test passed; waiting in \<^verbatim>\<open>as_completed\<close>; at the test
  of the second loop, with the future it was given; at \<^verbatim>\<open>future.result()\<close> and the
  tally, the test passed; at the exit of the \<^verbatim>\<open>with\<close> block, which waits for the
  pool; after \<^verbatim>\<open>finished.emit\<close>; or, when the pool could not be created, after
  \<^verbatim>\<open>error.emit\<close>.
\<close>

datatype unit_result = Skipped | Returned bool | Raised

datatype main_pc =
    LoopHead
  | TestSubmit nat
  | DoSubmit nat
  | AwaitFuture
  | TestCollect nat unit_result
  | DoTally nat unit_result
  | Joining
  | Emitted
  | Errored

text \<open>
  Chapter units are numbered in submission order. A submitted unit is \<open>queued\<close> until
  a pool thread calls it and runs its entry test; it has \<open>passed\<close> when the test found
  the flag unset and \<^verbatim>\<open>download_chapter_images\<close> is not yet called; it is
  \<open>running\<close> from that call until the unit returns. \<open>done_futures\<close> holds the
  futures that have completed and that \<^verbatim>\<open>as_completed\<close> has not yielded yet, with
  their outcome: \<open>Skipped\<close> for \<^verbatim>\<open>(chapter, None)\<close>, \<open>Returned ok\<close> for a result
  with \<^verbatim>\<open>success = ok\<close>, \<open>Raised\<close> for an exception. \<open>submitted\<close>, \<open>began\<close> and
  \<open>downloaded\<close> record the units that were submitted, that called
  \<^verbatim>\<open>download_chapter_images\<close>, and that returned from their download.
\<close>

record gui_state =
  is_cancelled :: bool
  pc :: main_pc
  selected_chapters :: "nat list"
  queued :: "nat list"
  passed :: "nat list"
  running :: "nat list"
  done_futures :: "(nat \<times> unit_result) list"
  successful :: nat
  failed :: nat
  completed :: nat
  submitted :: "nat list"
  began :: "nat list"
  downloaded :: "(nat \<times> unit_result) list"
  emitted :: "(nat \<times> nat) option"
  error_emitted :: "string option"


definition pool_idle :: "gui_state \<Rightarrow> bool" where
  "pool_idle s = (queued s = [] \<and> passed s = [] \<and> running s = [])"

text \<open>
  The next statement of the main thread. In \<^verbatim>\<open>as_completed\<close> it leaves the loop
  when every future has been yielded, and waits otherwise; at the exit of the \<^verbatim>\<open>with\<close>
  block it waits until the pool is idle.
\<close>

definition tally :: "gui_state \<Rightarrow> unit_result \<Rightarrow> gui_state" where
  "tally s result =
     (if result = Returned True
      then s\<lparr>completed := completed s + 1, successful := successful s + 1\<rparr>
      else s\<lparr>completed := completed s + 1, failed := failed s + 1\<rparr>)"

definition main_step :: "gui_state \<Rightarrow> gui_state" where
  "main_step s =
     (case pc s of
        LoopHead \<Rightarrow>
          (case selected_chapters s of
             [] \<Rightarrow> s\<lparr>pc := AwaitFuture\<rparr>
           | chapter # rest \<Rightarrow> s\<lparr>pc := TestSubmit chapter, selected_chapters := rest\<rparr>)
      | TestSubmit chapter \<Rightarrow>
          if is_cancelled s then s\<lparr>pc := AwaitFuture\<rparr> else s\<lparr>pc := DoSubmit chapter\<rparr>
      | DoSubmit chapter \<Rightarrow>
          s\<lparr>pc := LoopHead, queued := queued s @ [chapter], submitted := submitted s @ [chapter]\<rparr>
      | AwaitFuture \<Rightarrow>
          if pool_idle s \<and> done_futures s = [] then s\<lparr>pc := Joining\<rparr> else s
      | TestCollect chapter result \<Rightarrow>
          if is_cancelled s then s\<lparr>pc := Joining\<rparr> else s\<lparr>pc := DoTally chapter result\<rparr>
      | DoTally chapter result \<Rightarrow> (tally s result)\<lparr>pc := AwaitFuture\<rparr>
      | Joining \<Rightarrow>
          if pool_idle s then s\<lparr>pc := Emitted, emitted := Some (successful s, failed s)\<rparr> else s
      | Emitted \<Rightarrow> s
      | Errored \<Rightarrow> s)"

text \<open>
  The steps. \<open>Cancel\<close>: the interface thread sets the flag. \<open>Main\<close>: the main thread
  executes its next statement. \<open>Yield c\<close>: \<^verbatim>\<open>as_completed\<close> gives the completed
  future of unit \<open>c\<close> to the main thread. \<open>Check c\<close>: a pool thread calls the queued
  unit \<open>c\<close>, which tests the flag and returns \<^verbatim>\<open>(chapter, None)\<close> when it is set.
  \<open>Begin c\<close>: unit \<open>c\<close>, its test passed, calls \<^verbatim>\<open>download_chapter_images\<close>.
  \<open>Finish c result\<close>: unit \<open>c\<close> returns from its download and its conversion, or
  raises. No bound on the pool is modelled here: every order in which a pool may call
  the queued units is a schedule.
\<close>

datatype event = Cancel | Main | Yield nat | Check nat | Begin nat | Finish nat unit_result

fun step :: "gui_state \<Rightarrow> event \<Rightarrow> gui_state" where
  "step s Cancel = s\<lparr>is_cancelled := True\<rparr>"
| "step s Main = main_step s"
| "step s (Yield c) =
     (if pc s \<noteq> AwaitFuture then s
      else (case map_of (done_futures s) c of
              None \<Rightarrow> s
            | Some result \<Rightarrow>
                s\<lparr>pc := TestCollect c result,
                  done_futures := filter (\<lambda>f. fst f \<noteq> c) (done_futures s)\<rparr>))"
| "step s (Check c) =
     (if c \<notin> set (queued s) then s
      else if is_cancelled s
        then s\<lparr>queued := remove1 c (queued s), done_futures := done_futures s @ [(c, Skipped)]\<rparr>
        else s\<lparr>queued := remove1 c (queued s), passed := passed s @ [c]\<rparr>)"
| "step s (Begin c) =
     (if c \<notin> set (passed s) then s
      else s\<lparr>passed := remove1 c (passed s), running := running s @ [c],
             began := began s @ [c]\<rparr>)"
| "step s (Finish c result) =
     (if c \<notin> set (running s) \<or> result = Skipped then s
      else s\<lparr>running := remove1 c (running s), done_futures := done_futures s @ [(c, result)],
             downloaded := downloaded s @ [(c, result)]\<rparr>)"







section \<open>The converters (\<^verbatim>\<open>src/converters/pdf.py\<close>, \<^verbatim>\<open>src/converters/cbz.py\<close>)\<close>

text \<open>
  The part of the file system a conversion touches: whether the image folder exists as
  a directory, the names of the files in it, and the output file, if one was opened for
  writing, with whether it was written completely.
\<close>

record folder_fs =
  is_directory :: bool
  names :: "string list"
  archive :: "(path \<times> bool) option"

text \<open>
  What can fail outside the program: importing \<^verbatim>\<open>img2pdf\<close> and Pillow, listing the
  folder, opening an image (which gives its mode), saving a converted copy, writing the
  output (\<^verbatim>\<open>img2pdf.convert\<close>, the file or the archive), and \<^verbatim>\<open>shutil.rmtree\<close>.
\<close>

record converter_env =
  libraries :: bool
  iterdir_error :: "exn option"
  image_mode :: "string \<Rightarrow> exn + string"
  save_error :: "string \<Rightarrow> exn option"
  write_error :: "exn option"
  rmtree_error :: "exn option"

definition lower :: "string \<Rightarrow> string" where
  "lower s = map (\<lambda>c. let n = (of_char c :: nat) in if 65 \<le> n \<and> n \<le> 90 then char_of (n + 32) else c) s"

text \<open>\<^verbatim>\<open>Path.suffix\<close> and \<^verbatim>\<open>Path.with_suffix\<close> on a file name.\<close>

definition suffix :: "string \<Rightarrow> string" where
  "suffix name =
     (let i = rfind name (CHR ''.'')
      in if 0 < i \<and> i < int (length name) - 1 then drop (nat i) name else [])"

definition with_suffix :: "string \<Rightarrow> string \<Rightarrow> string" where
  "with_suffix name new = take (length name - length (suffix name)) name @ new"

definition image_extensions :: "string list" where
  "image_extensions = [''.jpg'', ''.jpeg'', ''.png'', ''.gif'', ''.webp'', ''.bmp'']"

text \<open>\<^verbatim>\<open>sorted([f for f in image_folder.iterdir() if f.suffix.lower() in image_extensions])\<close>.\<close>

definition image_files_of :: "folder_fs \<Rightarrow> string list" where
  "image_files_of fs = sort (filter (\<lambda>f. lower (suffix f) \<in> set image_extensions) (names fs))"

definition default_output :: "path \<Rightarrow> string \<Rightarrow> path" where
  "default_output image_folder ext = butlast image_folder @ [last image_folder @ ext]"

text \<open>
  The loop of \<^verbatim>\<open>convert_to_pdf\<close> over the image files: the files handed to
  \<^verbatim>\<open>img2pdf\<close> and the temporary JPEG copies written into the image folder. An image
  that cannot be opened or saved is skipped.
\<close>

fun prepare_images :: "converter_env \<Rightarrow> string list \<Rightarrow> string list \<times> string list" where
  "prepare_images env [] = ([], [])"
| "prepare_images env (img_path # rest) =
     (let (processed_images, temp_files) = prepare_images env rest in
      case image_mode env img_path of
        Inl e \<Rightarrow> (processed_images, temp_files)
      | Inr mode \<Rightarrow>
          if mode \<in> {''RGBA'', ''P''} then
            (let temp_path = with_suffix img_path ''.temp.jpg'' in
             case save_error env temp_path of
               Some e \<Rightarrow> (processed_images, temp_files)
             | None \<Rightarrow> (temp_path # processed_images, temp_path # temp_files))
          else (img_path # processed_images, temp_files))"

text \<open>
  The result of a conversion: an exception that leaves the function, or the returned
  \<^verbatim>\<open>Optional[Path]\<close>; and the file system afterwards. When \<^verbatim>\<open>rmtree\<close> fails the
  folder is taken to be left as it was.
\<close>

definition remove_folder :: "converter_env \<Rightarrow> folder_fs \<Rightarrow> folder_fs" where
  "remove_folder env fs =
     (case rmtree_error env of
        Some e \<Rightarrow> fs
      | None \<Rightarrow> fs\<lparr>is_directory := False, names := []\<rparr>)"

definition convert_to_pdf ::
  "converter_env \<Rightarrow> folder_fs \<Rightarrow> path \<Rightarrow> path option \<Rightarrow> bool \<Rightarrow> (exn + path option) \<times> folder_fs" where
  "convert_to_pdf env fs image_folder output_path keep_images' =
     (if \<not> libraries env then (Inr None, fs)
      else if \<not> is_directory fs then (Inr None, fs)
      else (case iterdir_error env of
              Some e \<Rightarrow> (Inl e, fs)
            | None \<Rightarrow>
                (let image_files = image_files_of fs in
                 if image_files = [] then (Inr None, fs)
                 else
                   (let output_path = (case output_path of
                                         None \<Rightarrow> default_output image_folder ''.pdf''
                                       | Some p \<Rightarrow> p);
                        (processed_images, temp_files) = prepare_images env image_files;
                        fs1 = fs\<lparr>names := List.union (names fs) temp_files\<rparr>
                    in if processed_images = [] then (Inr None, fs1)
                       else (case write_error env of
                               Some e \<Rightarrow> (Inr None, fs1\<lparr>archive := Some (output_path, False)\<rparr>)
                             | None \<Rightarrow>
                                 (let fs2 = fs1\<lparr>archive := Some (output_path, True),
                                              names := filter (\<lambda>f. f \<notin> set temp_files) (names fs1)\<rparr>
                                  in (Inr (Some output_path),
                                      if \<not> keep_images' then remove_folder env fs2 else fs2)))))))"

definition convert_to_cbz ::
  "converter_env \<Rightarrow> folder_fs \<Rightarrow> path \<Rightarrow> path option \<Rightarrow> bool \<Rightarrow> (exn + path option) \<times> folder_fs" where
  "convert_to_cbz env fs image_folder output_path keep_images' =
     (if \<not> is_directory fs then (Inr None, fs)
      else (case iterdir_error env of
              Some e \<Rightarrow> (Inl e, fs)
            | None \<Rightarrow>
                (let image_files = image_files_of fs in
                 if image_files = [] then (Inr None, fs)
                 else
                   (let output_path = (case output_path of
                                         None \<Rightarrow> default_output image_folder ''.cbz''
                                       | Some p \<Rightarrow> p)
                    in case write_error env of
                         Some e \<Rightarrow> (Inr None, fs\<lparr>archive := Some (output_path, False)\<rparr>)
                       | None \<Rightarrow>
                           (let fs2 = fs\<lparr>archive := Some (output_path, True)\<rparr>
                            in (Inr (Some output_path),
                                if \<not> keep_images' then remove_folder env fs2 else fs2))))))"

text \<open>A folder with one page stored as a PNG with an alpha channel, on a full disk.\<close>

definition rgba_folder :: folder_fs where
  "rgba_folder = \<lparr>is_directory = True, names = [''001.png''], archive = None\<rparr>"

definition full_disk :: converter_env where
  "full_disk =
     \<lparr>libraries = True, iterdir_error = None, image_mode = (\<lambda>f. Inr ''RGBA''),
      save_error = (\<lambda>f. None), write_error = Some (Exn OSError ''No space left on device''),
      rmtree_error = None\<rparr>"

section \<open>The batch download (\<^verbatim>\<open>download_chapters\<close> of \<^verbatim>\<open>src/downloader/manager.py\<close>)\<close>

text \<open>
  \<^verbatim>\<open>download_chapters\<close> creates a pool with \<^verbatim>\<open>max_workers = max_chapter_workers\<close>,
  submits one unit (a call of \<^verbatim>\<open>download_chapter_images\<close>) for each chapter, and then
  collects the results from \<^verbatim>\<open>as_completed\<close>. Units are numbered in submission order.
  A unit is still to be submitted (\<open>chapters_left\<close>), waiting in the queue of the pool,
  executing in a worker thread, completed and not yet collected, or collected.
\<close>

record batch_state =
  pool_size :: int
  chapters_left :: "nat list"
  waiting :: "nat list"
  executing :: "nat list"
  completed_units :: "nat list"
  collected :: "nat list"

text \<open>
  The start of the batch: the constructor of the pool refuses a worker count below 1,
  and that exception leaves \<^verbatim>\<open>download_chapters\<close>, which has no handler around it.
\<close>

definition download_chapters_start :: "Config \<Rightarrow> nat \<Rightarrow> exn + batch_state" where
  "download_chapters_start config n =
     (case ThreadPoolExecutor (max_chapter_workers config) of
        Some e \<Rightarrow> Inl e
      | None \<Rightarrow>
          Inr \<lparr>pool_size = max_chapter_workers config, chapters_left = [0 ..< n], waiting = [],
               executing = [], completed_units = [], collected = []\<rparr>)"

text \<open>
  Modelled from the spec: the scheduling of \<^verbatim>\<open>ThreadPoolExecutor\<close>, which is library
  code and not part of the sources. The spec calls it a worker pool bounded by
  \<^verbatim>\<open>max_chapter_workers\<close>, in which at most \<open>W\<close> chapters run at once even when more
  are queued: the pool takes a waiting unit into execution only while fewer than
  \<open>pool_size\<close> units are executing.
\<close>

definition worker_available :: "batch_state \<Rightarrow> bool" where
  "worker_available s = (int (length (executing s)) < pool_size s)"

text \<open>
  The steps. \<open>SubmitNext\<close>: one round of the submission loop. \<open>StartUnit c\<close>: the pool
  takes the waiting unit \<open>c\<close> into execution. \<open>FinishUnit c\<close>: the executing unit
  \<open>c\<close> returns. \<open>CollectUnit c\<close>: after the submission loop, \<^verbatim>\<open>as_completed\<close>
  yields the completed unit \<open>c\<close> and its result is appended.
\<close>

datatype batch_event = SubmitNext | StartUnit nat | FinishUnit nat | CollectUnit nat

fun batch_step :: "batch_state \<Rightarrow> batch_event \<Rightarrow> batch_state" where
  "batch_step s SubmitNext =
     (case chapters_left s of
        [] \<Rightarrow> s
      | chapter # rest \<Rightarrow> s\<lparr>chapters_left := rest, waiting := waiting s @ [chapter]\<rparr>)"
| "batch_step s (StartUnit c) =
     (if c \<in> set (waiting s) \<and> worker_available s
      then s\<lparr>waiting := remove1 c (waiting s), executing := executing s @ [c]\<rparr> else s)"
| "batch_step s (FinishUnit c) =
     (if c \<in> set (executing s)
      then s\<lparr>executing := remove1 c (executing s), completed_units := completed_units s @ [c]\<rparr>
      else s)"
| "batch_step s (CollectUnit c) =
     (if chapters_left s = [] \<and> c \<in> set (completed_units s)
      then s\<lparr>completed_units := remove1 c (completed_units s), collected := collected s @ [c]\<rparr>
      else s)"

definition batch_exec :: "batch_state \<Rightarrow> batch_event list \<Rightarrow> batch_state" where
  "batch_exec s schedule = foldl batch_step s schedule"

text \<open>The number of units of a batch, wherever they are.\<close>

definition units_total :: "batch_state \<Rightarrow> nat" where
  "units_total s =
     length (chapters_left s) + length (waiting s) + length (executing s) +
     length (completed_units s) + length (collected s)"

section \<open>Properties\<close>

subsection \<open>Properties of the retry decorator\<close>

lemma before_retry_ready:
  assumes "\<forall>n. console n = None"
    and "\<forall>callback a e'. on_retry = Some callback \<longrightarrow> callback a e' = None"
    and "attempt < 1024" and "time_sleep (base_delay * 2 ^ attempt) = None"
  shows "before_retry console on_retry max_retries base_delay attempt e = Inr (base_delay * 2 ^ attempt)"
  using assms
  by (cases on_retry) (simp_all add: before_retry_def backoff_delay_def announce_def)

lemma retry_loop_skip:
  assumes fails: "\<forall>i<k. \<exists>e. func (a + i) = Inl e \<and> isinstance e exceptions"
    and reach: "int (a + k) \<le> max_retries"
    and ready: "\<forall>i<k. \<forall>e. before_retry console on_retry max_retries base_delay (a + i) e =
        Inr (base_delay * 2 ^ (a + i))"
  shows "retry_loop console on_retry max_retries base_delay exceptions func
           [a ..< nat (max_retries + 1)] last_exception a sl =
         retry_loop console on_retry max_retries base_delay exceptions func
           [a + k ..< nat (max_retries + 1)]
           (if k = 0 then last_exception else Some (projl (func (a + k - 1)))) (a + k)
           (sl @ map (\<lambda>i. base_delay * 2 ^ i) [a ..< a + k])"
  using fails reach ready
proof (induction k arbitrary: a last_exception sl)
  case 0
  then show ?case by simp
next
  case (Suc k)
  from Suc.prems(1) obtain e where e: "func a = Inl e" "isinstance e exceptions"
    by (metis add.right_neutral zero_less_Suc)
  have lt: "a < nat (max_retries + 1)" "int a < max_retries"
    using Suc.prems(2) by auto
  have sleep: "before_retry console on_retry max_retries base_delay a e = Inr (base_delay * 2 ^ a)"
    using Suc.prems(3) by (metis add.right_neutral zero_less_Suc)
  have upt: "[a ..< nat (max_retries + 1)] = a # [Suc a ..< nat (max_retries + 1)]"
    using lt by (simp add: upt_conv_Cons)
  have step: "retry_loop console on_retry max_retries base_delay exceptions func
        [a ..< nat (max_retries + 1)] last_exception a sl =
      retry_loop console on_retry max_retries base_delay exceptions func
        [Suc a ..< nat (max_retries + 1)] (Some e) (Suc a) (sl @ [base_delay * 2 ^ a])"
    unfolding upt using e lt sleep by simp
  have rest: "\<forall>i<k. \<exists>e. func (Suc a + i) = Inl e \<and> isinstance e exceptions"
    using Suc.prems(1) by (metis Suc_less_eq add_Suc_shift)
  have reach': "int (Suc a + k) \<le> max_retries"
    using Suc.prems(2) by simp
  have ready': "\<forall>i<k. \<forall>e. before_retry console on_retry max_retries base_delay (Suc a + i) e =
      Inr (base_delay * 2 ^ (Suc a + i))"
    using Suc.prems(3) by (metis Suc_less_eq add_Suc_shift)
  have last_eq: "(if k = 0 then Some e else Some (projl (func (Suc a + k - 1)))) =
        Some (projl (func (a + Suc k - 1)))"
    using e by (cases k) auto
  have upt_eq: "[a ..< a + Suc k] = a # [Suc a ..< Suc a + k]"
    by (simp add: upt_conv_Cons)
  show ?case
    unfolding step Suc.IH [OF rest reach' ready'] last_eq upt_eq by simp
qed

lemma retry_loop_calls_le:
  "calls (retry_loop console on_retry max_retries base_delay exceptions func xs last_exception n sl)
     \<le> n + length xs"
proof (induction xs arbitrary: last_exception n sl)
  case Nil
  then show ?case by simp
next
  case (Cons a xs)
  have IH: "calls (retry_loop console on_retry max_retries base_delay exceptions func xs l (Suc n) s)
      \<le> Suc (n + length xs)" for l s
    using Cons.IH [of l "Suc n" s] by simp
  show ?case
    by (simp add: IH split: sum.splits option.splits)
qed




lemma sum_list_backoff:
  "sum_list (map (\<lambda>i. base_delay * 2 ^ i) [0 ..< f]) = base_delay * (\<Sum>i<f. 2 ^ i)" for base_delay :: real
  by (induction f) (simp_all add: algebra_simps)

lemma fails_then_succeeds_fail:
  "list_all (\<lambda>e. isinstance e exceptions) errs \<Longrightarrow> k \<le> length errs \<Longrightarrow>
   \<forall>i<k. \<exists>e. fails_then_succeeds errs v (0 + i) = Inl e \<and> isinstance e exceptions"
  by (simp add: fails_then_succeeds_def list_all_length)



text \<open>
  Claim C2, for a retry count that is not negative and while the handler itself does not
  fail: printing the notices (or calling \<^verbatim>\<open>on_retry\<close>) raises nothing, and every delay
  that is slept is one \<^verbatim>\<open>time.sleep\<close> accepts (not negative, below about \<open>9.2e9\<close>
  seconds, at an attempt below 1024). The wrapper calls the operation at most
  \<open>max_retries + 1\<close> times. An operation that fails \<open>f\<close> times with caught errors and
  then succeeds, with \<open>f \<le> max_retries\<close>, yields its value after \<open>f + 1\<close> calls, and
  the delays slept add up to \<open>base_delay * (2^0 + ... + 2^(f-1))\<close>. With
  \<open>f > max_retries\<close> the wrapper raises \<open>RetryError\<close>, raised from the error of the last
  call, after exactly \<open>max_retries + 1\<close> calls.
\<close>

theorem with_retry_backoff_contract:
  assumes retries: "0 \<le> max_retries"
    and console: "\<forall>n. console n = None"
    and callback: "\<forall>callback a e. on_retry = Some callback \<longrightarrow> callback a e = None"
    and errs: "list_all (\<lambda>e. isinstance e exceptions) errs"
  shows "int (calls (with_retry console on_retry max_retries base_delay exceptions func))
      \<le> max_retries + 1 \<and>
    (int (length errs) \<le> max_retries \<and>
     (\<forall>k<length errs. k < 1024 \<and> time_sleep (base_delay * 2 ^ k) = None) \<longrightarrow>
      (let r = with_retry console on_retry max_retries base_delay exceptions
                 (fails_then_succeeds errs v)
       in outcome r = Inr v \<and> calls r = length errs + 1 \<and>
          total_sleep r = base_delay * (\<Sum>i<length errs. 2 ^ i))) \<and>
    (max_retries < int (length errs) \<and>
     (\<forall>k<nat max_retries. k < 1024 \<and> time_sleep (base_delay * 2 ^ k) = None) \<longrightarrow>
      (let r = with_retry console on_retry max_retries base_delay exceptions
                 (fails_then_succeeds errs v)
       in outcome r = Inl (RetryError (max_retries + 1) (Some (errs ! nat max_retries))) \<and>
          int (calls r) = max_retries + 1 \<and>
          total_sleep r = base_delay * (\<Sum>i<nat max_retries. 2 ^ i)))"
proof (intro conjI impI)
  have "calls (with_retry console on_retry max_retries base_delay exceptions func)
      \<le> 0 + length (py_range (max_retries + 1))"
    unfolding with_retry_def by (rule retry_loop_calls_le)
  then show "int (calls (with_retry console on_retry max_retries base_delay exceptions func))
      \<le> max_retries + 1"
    using retries by (simp add: py_range_def)
next
  let ?f = "length errs"
  let ?op = "fails_then_succeeds errs v"
  assume a: "int ?f \<le> max_retries \<and>
     (\<forall>k<?f. k < 1024 \<and> time_sleep (base_delay * 2 ^ k) = None)"
  then have le: "int ?f \<le> max_retries" by simp
  have ready: "\<forall>i<?f. \<forall>e. before_retry console on_retry max_retries base_delay (0 + i) e =
      Inr (base_delay * 2 ^ (0 + i))"
    using a before_retry_ready [OF console callback] by simp
  have skip: "retry_loop console on_retry max_retries base_delay exceptions ?op
        [0 ..< nat (max_retries + 1)] None 0 [] =
      retry_loop console on_retry max_retries base_delay exceptions ?op
        [0 + ?f ..< nat (max_retries + 1)]
        (if ?f = 0 then None else Some (projl (?op (0 + ?f - 1)))) (0 + ?f)
        ([] @ map (\<lambda>i. base_delay * 2 ^ i) [0 ..< 0 + ?f])"
    by (rule retry_loop_skip [OF fails_then_succeeds_fail [OF errs] _ ready]) (use le in simp_all)
  have upt: "[?f ..< nat (max_retries + 1)] = ?f # [Suc ?f ..< nat (max_retries + 1)]"
    using le by (simp add: upt_conv_Cons)
  have ok: "?op ?f = Inr v"
    by (simp add: fails_then_succeeds_def)
  have run: "with_retry console on_retry max_retries base_delay exceptions ?op =
      \<lparr>outcome = Inr v, calls = Suc ?f, sleeps = map (\<lambda>i. base_delay * 2 ^ i) [0 ..< ?f]\<rparr>"
    unfolding with_retry_def py_range_def skip by (simp add: upt ok)
  show "let r = with_retry console on_retry max_retries base_delay exceptions ?op
       in outcome r = Inr v \<and> calls r = ?f + 1 \<and>
          total_sleep r = base_delay * (\<Sum>i<?f. 2 ^ i)"
    unfolding run Let_def total_sleep_def by (simp add: sum_list_backoff)
next
  let ?f = "length errs"
  let ?k = "nat max_retries"
  let ?op = "fails_then_succeeds errs v"
  assume a: "max_retries < int ?f \<and>
     (\<forall>k<?k. k < 1024 \<and> time_sleep (base_delay * 2 ^ k) = None)"
  then have gt: "max_retries < int ?f" by simp
  have k: "?k < ?f" "int ?k = max_retries"
    using gt retries by auto
  have ready: "\<forall>i<?k. \<forall>e. before_retry console on_retry max_retries base_delay (0 + i) e =
      Inr (base_delay * 2 ^ (0 + i))"
    using a before_retry_ready [OF console callback] by simp
  have skip: "retry_loop console on_retry max_retries base_delay exceptions ?op
        [0 ..< nat (max_retries + 1)] None 0 [] =
      retry_loop console on_retry max_retries base_delay exceptions ?op
        [0 + ?k ..< nat (max_retries + 1)]
        (if ?k = 0 then None else Some (projl (?op (0 + ?k - 1)))) (0 + ?k)
        ([] @ map (\<lambda>i. base_delay * 2 ^ i) [0 ..< 0 + ?k])"
    by (rule retry_loop_skip [OF fails_then_succeeds_fail [OF errs] _ ready]) (use k in simp_all)
  have upt: "[?k ..< nat (max_retries + 1)] = [?k]"
    using retries by (simp add: upt_conv_Cons nat_add_distrib)
  have bad: "?op ?k = Inl (errs ! ?k)" "isinstance (errs ! ?k) exceptions"
    using k errs by (simp_all add: fails_then_succeeds_def list_all_length)
  have run: "with_retry console on_retry max_retries base_delay exceptions ?op =
      \<lparr>outcome = Inl (RetryError (max_retries + 1) (Some (errs ! ?k))), calls = Suc ?k,
        sleeps = map (\<lambda>i. base_delay * 2 ^ i) [0 ..< ?k]\<rparr>"
    unfolding with_retry_def py_range_def skip using k(2) console by (simp add: upt bad)
  show "let r = with_retry console on_retry max_retries base_delay exceptions ?op
       in outcome r = Inl (RetryError (max_retries + 1) (Some (errs ! ?k))) \<and>
          int (calls r) = max_retries + 1 \<and>
          total_sleep r = base_delay * (\<Sum>i<?k. 2 ^ i)"
    unfolding run Let_def total_sleep_def using k(2) by (simp add: sum_list_backoff)
qed

lemmas retry_eval =
  with_retry_def retry_request_def request_exceptions_def py_range_def fails_then_succeeds_def
  isinstance_def issubclass_def time_sleep_def backoff_delay_def before_retry_def announce_def
  plain_console_def strict_console_def total_sleep_def upt_conv_Cons Let_def

text \<open>
  The contract at \<open>max_retries = 3\<close> (two failures, then success: delays 2 and 4) and at
  \<open>max_retries = 1\<close> (two failures exhaust the two attempts).
\<close>

theorem with_retry_backoff_contract_witness:
  "(0::int) \<le> 3 \<and>
   list_all (\<lambda>e. isinstance e [Exception]) [Exn ConnectionError ''reset'', Exn ReqTimeout ''slow''] \<and>
   time_sleep (2 * 2 ^ 0) = None \<and> time_sleep (2 * 2 ^ 1) = None \<and>
   int (calls (with_retry plain_console None 3 2 [Exception] (\<lambda>n. Inr (n + 5) :: exn + nat))) \<le> 3 + 1 \<and>
   (let r = with_retry plain_console None 3 2 [Exception]
              (fails_then_succeeds [Exn ConnectionError ''reset'', Exn ReqTimeout ''slow''] (7::nat))
    in outcome r = Inr 7 \<and> calls r = 3 \<and> total_sleep r = 2 * (2 ^ 0 + 2 ^ 1)) \<and>
   (let r = with_retry plain_console None 1 2 [Exception]
              (fails_then_succeeds [Exn ConnectionError ''reset'', Exn ReqTimeout ''slow''] (7::nat))
    in outcome r = Inl (RetryError 2 (Some (Exn ReqTimeout ''slow''))) \<and> int (calls r) = 1 + 1)"
proof -
  let ?errs = "[Exn ConnectionError ''reset'', Exn ReqTimeout ''slow'']"
  have h: "list_all (\<lambda>e. isinstance e [Exception]) ?errs"
    by (simp add: isinstance_def issubclass_def)
  have a: "(0::int) \<le> 3" "(0::int) \<le> 1"
    by simp_all
  have c: "\<forall>n. plain_console n = None"
    "\<forall>callback a e. (None :: (int \<Rightarrow> exn \<Rightarrow> exn option) option) = Some callback \<longrightarrow> callback a e = None"
    by (simp_all add: plain_console_def)
  have s: "time_sleep (2 * 2 ^ 0) = None" "time_sleep (2 * 2 ^ 1) = None"
    by (simp_all add: time_sleep_def)
  have s3: "\<forall>k<length ?errs. k < 1024 \<and> time_sleep (2 * 2 ^ k) = None"
    using s by (simp add: less_Suc_eq)
  have s1: "\<forall>k<nat 1. k < 1024 \<and> time_sleep (2 * 2 ^ k) = None"
    using s by simp
  show ?thesis
    using with_retry_backoff_contract [where func = "\<lambda>n. Inr (n + 5)" and base_delay = 2
        and v = "7::nat", OF a(1) c h]
      with_retry_backoff_contract [where func = "\<lambda>n. Inr (n + 5)" and base_delay = 2
        and v = "7::nat", OF a(2) c h] h s s3 s1
    by (simp add: Let_def lessThan_Suc numeral_2_eq_2)
qed

lemma time_sleep_short:
  assumes "0 \<le> secs" "secs \<le> 1"
  shows "time_sleep secs = None"
proof -
  have "\<bar>secs\<bar> * 10 ^ 9 \<le> 10 ^ 9"
    using assms by simp
  then have "\<lceil>\<bar>secs\<bar> * 10 ^ 9\<rceil> \<le> 10 ^ 9"
    by (simp add: ceiling_le_iff)
  then have "\<not> 2 ^ 63 \<le> \<lceil>\<bar>secs\<bar> * 10 ^ 9\<rceil>"
    by simp
  then show ?thesis
    using assms by (simp add: time_sleep_def)
qed

lemma with_retry_power_overflow:
  fixes base_delay :: real
  assumes "0 \<le> base_delay" "base_delay * 2 ^ 1023 \<le> 1" "isinstance e exceptions"
  shows "with_retry plain_console None 1025 base_delay exceptions
      (fails_then_succeeds (replicate 1025 e) v) =
    \<lparr>outcome = Inl (Exn OverflowError ''int too large to convert to float''), calls = 1025,
     sleeps = map (\<lambda>i. base_delay * 2 ^ i) [0 ..< 1024]\<rparr>"
proof -
  let ?func = "fails_then_succeeds (replicate 1025 e) v"
  have all: "list_all (\<lambda>e. isinstance e exceptions) (replicate 1025 e)"
    using assms(3) by (simp add: list_all_length)
  have fails: "\<forall>i<1024. \<exists>e. ?func (0 + i) = Inl e \<and> isinstance e exceptions"
    by (rule fails_then_succeeds_fail [OF all]) simp
  have sleep: "time_sleep (base_delay * 2 ^ i) = None" if "i < 1024" for i
  proof (rule time_sleep_short)
    show "0 \<le> base_delay * 2 ^ i"
      using assms(1) by simp
    have "(2::real) ^ i \<le> 2 ^ 1023"
      by (rule power_increasing) (use that in simp_all)
    then have "base_delay * 2 ^ i \<le> base_delay * 2 ^ 1023"
      using assms(1) by (rule mult_left_mono)
    then show "base_delay * 2 ^ i \<le> 1"
      using assms(2) by linarith
  qed
  have ready: "\<forall>i<1024. \<forall>e. before_retry plain_console None 1025 base_delay (0 + i) e =
      Inr (base_delay * 2 ^ (0 + i))"
    using sleep by (simp add: before_retry_ready plain_console_def)
  have skip: "retry_loop plain_console None 1025 base_delay exceptions ?func
        [0 ..< nat (1025 + 1)] None 0 [] =
      retry_loop plain_console None 1025 base_delay exceptions ?func
        [0 + 1024 ..< nat (1025 + 1)]
        (if (1024::nat) = 0 then None else Some (projl (?func (0 + 1024 - 1)))) (0 + 1024)
        ([] @ map (\<lambda>i. base_delay * 2 ^ i) [0 ..< 0 + 1024])"
    by (rule retry_loop_skip [OF fails _ ready]) simp
  have upt: "[0 + 1024 ..< nat (1025 + 1)] = 1024 # [1025 ..< 1026]"
    by (simp add: upt_conv_Cons)
  have last_call: "?func 1024 = Inl e"
    by (simp add: fails_then_succeeds_def)
  have delay: "before_retry plain_console None 1025 base_delay 1024 e =
      Inl (Exn OverflowError ''int too large to convert to float'')"
    by (simp add: before_retry_def backoff_delay_def)
  show ?thesis
    unfolding with_retry_def py_range_def skip upt
    using last_call delay assms(3) by simp
qed

text \<open>
  Claim C2 as stated, for every retry count and base delay, fails. With
  \<open>max_retries = -2\<close> the loop body never runs: zero calls, which is more than
  \<open>max_retries + 1 = -1\<close>. With \<open>max_retries = -1\<close> an operation that would succeed
  at once is never called and the \<open>RetryError\<close> carries no underlying error. With a
  negative base delay, or with a base delay of \<open>10^10\<close> seconds, \<^verbatim>\<open>time.sleep\<close> raises
  inside the handler after the first failure, although one retry would have succeeded.
  When the console rejects the text of the error, printing the notice raises
  \<open>MarkupError\<close> inside the handler. And with 1025 retries, a base delay of
  \<open>2^-1030\<close> seconds and an operation that fails 1025 times and then succeeds, the
  delay of attempt 1024 cannot be computed: \<^verbatim>\<open>2 ** 1024\<close> does not convert to a float,
  and \<open>OverflowError\<close> leaves the wrapper at call 1025.
\<close>

theorem with_retry_unguarded_parameters_counterexample:
  "\<not> int (calls (with_retry plain_console None (- 2) 2 [Exception]
       (fails_then_succeeds [] (7::nat)))) \<le> - 2 + 1 \<and>
   outcome (with_retry plain_console None (- 1) 2 [Exception] (fails_then_succeeds [] (7::nat))) =
     Inl (RetryError 0 None) \<and>
   outcome (with_retry plain_console None 3 (- 1) [Exception]
      (fails_then_succeeds [Exn ConnectionError ''reset''] (7::nat))) =
     Inl (Exn ValueError ''sleep length must be non-negative'') \<and>
   with_retry plain_console None 1 (10 ^ 10) [Exception]
      (fails_then_succeeds [Exn ConnectionError ''reset''] (7::nat)) =
     \<lparr>outcome = Inl (Exn OverflowError ''timestamp out of range for platform time_t''),
      calls = 1, sleeps = []\<rparr> \<and>
   with_retry strict_console None 3 2 [Exception]
      (fails_then_succeeds [Exn ConnectionError ''closed [/b]''] (7::nat)) =
     \<lparr>outcome = Inl (Exn MarkupError ''closing tag does not match any open tag''),
      calls = 1, sleeps = []\<rparr> \<and>
   outcome (with_retry plain_console None 1025 (1 / 2 ^ 1030) [Exception]
      (fails_then_succeeds (replicate 1025 (Exn ConnectionError ''reset'')) (7::nat))) =
     Inl (Exn OverflowError ''int too large to convert to float'') \<and>
   calls (with_retry plain_console None 1025 (1 / 2 ^ 1030) [Exception]
      (fails_then_succeeds (replicate 1025 (Exn ConnectionError ''reset'')) (7::nat))) = 1025"
proof -
  have tag: "has_closing_tag ''closed [/b]''"
    by code_simp
  have caught: "isinstance (Exn ConnectionError ''reset'') [Exception]"
    by (simp add: isinstance_def issubclass_def)
  have small: "(0::real) \<le> 1 / 2 ^ 1030" "(1::real) / 2 ^ 1030 * 2 ^ 1023 \<le> 1"
    by simp_all
  have overflow: "with_retry plain_console None 1025 (1 / 2 ^ 1030) [Exception]
      (fails_then_succeeds (replicate 1025 (Exn ConnectionError ''reset'')) (7::nat)) =
    \<lparr>outcome = Inl (Exn OverflowError ''int too large to convert to float''), calls = 1025,
     sleeps = map (\<lambda>i. 1 / 2 ^ 1030 * 2 ^ i) [0 ..< 1024]\<rparr>"
    by (rule with_retry_power_overflow [OF small caught])
  have rest: "\<not> int (calls (with_retry plain_console None (- 2) 2 [Exception]
       (fails_then_succeeds [] (7::nat)))) \<le> - 2 + 1 \<and>
   outcome (with_retry plain_console None (- 1) 2 [Exception] (fails_then_succeeds [] (7::nat))) =
     Inl (RetryError 0 None) \<and>
   outcome (with_retry plain_console None 3 (- 1) [Exception]
      (fails_then_succeeds [Exn ConnectionError ''reset''] (7::nat))) =
     Inl (Exn ValueError ''sleep length must be non-negative'') \<and>
   with_retry plain_console None 1 (10 ^ 10) [Exception]
      (fails_then_succeeds [Exn ConnectionError ''reset''] (7::nat)) =
     \<lparr>outcome = Inl (Exn OverflowError ''timestamp out of range for platform time_t''),
      calls = 1, sleeps = []\<rparr> \<and>
   with_retry strict_console None 3 2 [Exception]
      (fails_then_succeeds [Exn ConnectionError ''closed [/b]''] (7::nat)) =
     \<lparr>outcome = Inl (Exn MarkupError ''closing tag does not match any open tag''),
      calls = 1, sleeps = []\<rparr>"
    by (simp add: retry_eval tag)
  show ?thesis
    unfolding overflow using rest by simp
qed




subsection \<open>Properties of the chapter download\<close>

lemma isinstance_Exception: "isinstance e [Exception]"
proof -
  have "issubclass c Exception" for c
    by (cases c) (simp_all add: issubclass_def)
  then show ?thesis
    by (simp add: isinstance_def)
qed

lemma count_successful_eq:
  "count_successful results n = n + length (filter (\<lambda>result. result = Inr True) results)"
proof (induction results arbitrary: n)
  case Nil
  then show ?case by simp
next
  case (Cons r results)
  then show ?case by (cases r) auto
qed

lemma mset_as_completed:
  assumes "yields_each_once w (length futures)"
  shows "mset (as_completed w futures) = mset futures"
proof -
  have "mset (as_completed w futures) = image_mset (\<lambda>i. futures ! i) (mset (arrival w (length futures)))"
    by (simp add: as_completed_def)
  also have "\<dots> = image_mset (\<lambda>i. futures ! i) (mset [0 ..< length futures])"
    using assms by (simp add: yields_each_once_def)
  also have "\<dots> = mset (map (\<lambda>i. futures ! i) [0 ..< length futures])"
    by simp
  also have "\<dots> = mset futures"
    by (simp add: map_nth)
  finally show ?thesis .
qed

lemma length_filter_mset_cong:
  "mset xs = mset ys \<Longrightarrow> length (filter P (map f xs)) = length (filter P (map f ys))"
proof -
  assume "mset xs = mset ys"
  then have "mset (filter P (map f xs)) = mset (filter P (map f ys))"
    by (metis mset_filter mset_map)
  then show ?thesis
    by (metis size_mset)
qed

lemma downloads_of_download_effects:
  "downloads_of (download_effects chapter_path futures) = map (\<lambda>(u, f, result). result) futures"
  unfolding download_effects_def by (induction futures) auto

lemma image_ext_parsed:
  "\<not> isl (urlparse_path w u) \<Longrightarrow>
   image_ext w u =
     Inr (let ext = snd (splitext (projr (urlparse_path w u))) in if ext = [] then ''.jpg'' else ext)"
  by (cases "urlparse_path w u") (simp_all add: image_ext_def Let_def)

text \<open>
  The submission loop over a prefix of URLs that all parse: each gets its file name and
  its future, and the loop goes on with the rest.
\<close>

lemma submit_images_append:
  assumes "\<forall>u \<in> set pre. \<not> isl (urlparse_path w u)"
  shows "submit_images config w chapter_path i (pre @ rest) futures =
    submit_images config w chapter_path (i + length pre) rest
      (futures @
       map (\<lambda>(k, u). (u, fmt_03d k @ projr (image_ext w u),
              download_image config w u (joinpath chapter_path (fmt_03d k @ projr (image_ext w u)))))
         (zip [i ..< i + length pre] pre))"
  using assms
proof (induction pre arbitrary: i futures)
  case Nil
  then show ?case by simp
next
  case (Cons u pre)
  have ext: "image_ext w u = Inr (projr (image_ext w u))"
    using Cons.prems by (simp add: image_ext_parsed)
  have "[i ..< i + length (u # pre)] = i # [Suc i ..< i + length (u # pre)]"
    by (rule upt_conv_Cons) simp
  then have upt: "[i ..< i + length (u # pre)] = i # [Suc i ..< Suc i + length pre]"
    by (simp del: upt_Suc)
  have rest: "\<forall>u \<in> set pre. \<not> isl (urlparse_path w u)"
    using Cons.prems by simp
  have "submit_images config w chapter_path i ((u # pre) @ rest) futures =
      submit_images config w chapter_path (Suc i) (pre @ rest)
        (futures @ [(u, fmt_03d i @ projr (image_ext w u),
           download_image config w u (joinpath chapter_path (fmt_03d i @ projr (image_ext w u))))])"
    using ext by (auto simp: Let_def split: sum.splits)
  then show ?case
    unfolding upt Cons.IH [OF rest] by simp
qed

lemma submit_images_parsed:
  assumes "\<forall>u \<in> set image_urls. \<not> isl (urlparse_path w u)"
  shows "submit_images config w chapter_path i image_urls futures =
    (None, futures @
       map (\<lambda>(k, u). (u, fmt_03d k @ projr (image_ext w u),
              download_image config w u (joinpath chapter_path (fmt_03d k @ projr (image_ext w u)))))
         (zip [i ..< i + length image_urls] image_urls))"
  using submit_images_append [OF assms, of config chapter_path i "[]" futures]
  by simp


lemma length_submit_images_parsed:
  assumes "\<forall>u \<in> set image_urls. \<not> isl (urlparse_path w u)"
  shows "length (snd (submit_images config w chapter_path i image_urls [])) =
    length image_urls"
  unfolding submit_images_parsed [OF assms] by (simp del: upt_Suc)

text \<open>The pool over URLs that all parse, when the pool can be created.\<close>

lemma download_pool_parsed:
  assumes parsed: "\<forall>u \<in> set image_urls. \<not> isl (urlparse_path w u)"
    and each_once: "yields_each_once w (length image_urls)"
    and pool: "ThreadPoolExecutor (max_image_workers config) = None"
  shows "\<exists>futures. length futures = length image_urls \<and>
    download_pool config w chapter_path image_urls =
      (Inr \<lparr>success = (succeeded (download_effects chapter_path futures) = length image_urls),
            path = Some chapter_path, error = None,
            images_count = succeeded (download_effects chapter_path futures)\<rparr>,
       download_effects chapter_path futures)"
proof -
  have "\<exists>futures.
      submit_images config w chapter_path 1 image_urls [] = (None, futures) \<and>
      length futures = length image_urls"
    unfolding submit_images_parsed [OF parsed] by (simp del: upt_Suc)
  then obtain futures where sub:
    "submit_images config w chapter_path 1 image_urls [] = (None, futures)"
    and len: "length futures = length image_urls"
    by blast
  have count: "count_successful (map (\<lambda>(u, f, result). result) (as_completed w futures)) 0 =
      succeeded (download_effects chapter_path futures)"
    unfolding count_successful_eq succeeded_def downloads_of_download_effects
    using length_filter_mset_cong [OF mset_as_completed, of w futures
        "\<lambda>result. result = Inr True" "\<lambda>(u, f, result). result"] each_once len
    by simp
  have "download_pool config w chapter_path image_urls =
      (Inr \<lparr>success = (succeeded (download_effects chapter_path futures) = length image_urls),
            path = Some chapter_path, error = None,
            images_count = succeeded (download_effects chapter_path futures)\<rparr>,
       download_effects chapter_path futures)"
    unfolding download_pool_def pool sub prod.case option.case Let_def count by simp
  then show ?thesis
    using len by blast
qed

lemma download_pool_no_pool:
  "ThreadPoolExecutor (max_image_workers config) = Some e \<Longrightarrow>
   download_pool config w chapter_path image_urls = (Inl e, [])"
  by (simp add: download_pool_def)


lemma succeeded_prefix:
  "succeeded ([Scraped u, MadeDir p] @ effects) = succeeded effects"
  "downloads_of ([Scraped u, MadeDir p] @ effects) = downloads_of effects"
  by (simp_all add: succeeded_def)

text \<open>
  Claim C1, for a chapter whose image list is not empty and whose image URLs are all
  accepted by \<^verbatim>\<open>urlparse\<close>. Let \<open>k\<close> be the number of
  image URLs the scraper returned and \<open>j\<close> the number of image downloads that were
  performed and returned \<open>True\<close>. Whatever the order in which the downloads complete,
  the call returns a result whose image count is \<open>j\<close> and whose success flag is true
  exactly when \<open>j = k\<close>; a successful result has a path and counts all \<open>k\<close> images.
  When the chapter folder, the progress task and the pool could be created, one download
  is performed for each of the \<open>k\<close> images.
\<close>

theorem download_chapter_images_success_iff_all_images:
  assumes scraped: "scrape_chapter_images w (url chapter) = Inr image_urls"
    and nonempty: "image_urls \<noteq> []"
    and parsed: "\<forall>u \<in> set image_urls. \<not> isl (urlparse_path w u)"
    and each_once: "yields_each_once w (length image_urls)"
  shows "(let (outcome, effects) = download_chapter_images config w chapter manga_title progress
          in \<exists>result. outcome = Inr result \<and>
             images_count result = succeeded effects \<and>
             (success result \<longleftrightarrow> succeeded effects = length image_urls) \<and>
             (success result \<longrightarrow>
                path result \<noteq> None \<and> images_count result = length image_urls) \<and>
             (mkdir w (chapter_path_of config chapter manga_title) = None \<and>
              (\<forall>p. progress = Some p \<longrightarrow>
                 \<not> isl (add_task p (title chapter) (length image_urls))) \<and>
              ThreadPoolExecutor (max_image_workers config) = None \<longrightarrow>
                length (downloads_of effects) = length image_urls))"
proof -
  let ?cp = "chapter_path_of config chapter manga_title"
  let ?task = "case progress of
      None \<Rightarrow> Inr None
    | Some p \<Rightarrow> (case add_task p (title chapter) (length image_urls) of
                   Inl e \<Rightarrow> Inl e | Inr t \<Rightarrow> Inr (Some t))"
  have body: "download_chapter_images_try config w chapter manga_title progress =
      (case mkdir w ?cp of
         Some e \<Rightarrow> (Inl e, [Scraped (url chapter), MadeDir ?cp])
       | None \<Rightarrow>
           (case ?task of
              Inl e \<Rightarrow> (Inl e, [Scraped (url chapter), MadeDir ?cp])
            | Inr image_task \<Rightarrow>
                (let (result, effects) = download_pool config w ?cp image_urls
                 in (result, [Scraped (url chapter), MadeDir ?cp] @ effects))))"
    using scraped nonempty by (simp add: download_chapter_images_try_def Let_def)
  show ?thesis
  proof (cases "mkdir w ?cp")
    case (Some e)
    then show ?thesis
      unfolding download_chapter_images_def body using nonempty
      by (simp add: isinstance_Exception failure_def succeeded_def)
  next
    case None
    show ?thesis
    proof (cases ?task)
      case (Inl e)
      then have "\<not> (\<forall>p. progress = Some p \<longrightarrow>
          \<not> isl (add_task p (title chapter) (length image_urls)))"
        by (auto split: option.splits sum.splits)
      then show ?thesis
        unfolding download_chapter_images_def body using None Inl nonempty
        by (simp add: isinstance_Exception failure_def succeeded_def)
    next
      case (Inr image_task)
      show ?thesis
      proof (cases "ThreadPoolExecutor (max_image_workers config)")
        case (Some e)
        then show ?thesis
          unfolding download_chapter_images_def body using None Inr nonempty
          by (simp add: download_pool_no_pool isinstance_Exception failure_def succeeded_def)
      next
        case pool: None
        obtain futures where len: "length futures = length image_urls"
          and run: "download_pool config w ?cp image_urls =
            (Inr \<lparr>success = (succeeded (download_effects ?cp futures) = length image_urls),
                  path = Some ?cp, error = None,
                  images_count = succeeded (download_effects ?cp futures)\<rparr>,
             download_effects ?cp futures)"
          using download_pool_parsed [OF parsed each_once pool] by blast
        show ?thesis
          unfolding download_chapter_images_def body using None Inr len
          by (simp add: run succeeded_prefix downloads_of_download_effects del: append.simps)
      qed
    qed
  qed
qed

text \<open>
  The first example chapter has two pages. With the second page broken, one of two
  downloads succeeds and the chapter fails with a count of 1; with no page broken the
  chapter succeeds with a count of 2 and its folder as path.
\<close>

theorem download_chapter_images_success_iff_all_images_witness:
  "scrape_chapter_images (example_world [''https://cdn/1/b''])
     (url (example_chapter ''1'')) = Inr [''https://cdn/1/a.png'', ''https://cdn/1/b''] \<and>
   urlparse_path (example_world [''https://cdn/1/b'']) ''https://cdn/1/a.png'' = Inr ''/1/a.png'' \<and>
   urlparse_path (example_world [''https://cdn/1/b'']) ''https://cdn/1/b'' = Inr ''/1/b'' \<and>
   yields_each_once (example_world [''https://cdn/1/b'']) 2 \<and>
   (let (outcome, effects) =
          download_chapter_images default_config (example_world [''https://cdn/1/b''])
            (example_chapter ''1'') ''Some Manga: 2!'' None
    in succeeded effects = 1 \<and> length (downloads_of effects) = 2 \<and>
       (\<exists>result. outcome = Inr result \<and> images_count result = 1 \<and> \<not> success result)) \<and>
   (let (outcome, effects) =
          download_chapter_images default_config (example_world [])
            (example_chapter ''1'') ''Some Manga: 2!'' None
    in succeeded effects = 2 \<and>
       (\<exists>result. outcome = Inr result \<and> images_count result = 2 \<and> success result \<and>
          path result \<noteq> None))"
proof -
  let ?urls = "[''https://cdn/1/a.png'', ''https://cdn/1/b'']"
  have scraped: "scrape_chapter_images (example_world broken) (url (example_chapter ''1'')) = Inr ?urls"
    for broken
    by (simp add: example_world_def example_chapter_def)
  have paths: "urlparse_path (example_world broken) ''https://cdn/1/a.png'' = Inr ''/1/a.png''"
    "urlparse_path (example_world broken) ''https://cdn/1/b'' = Inr ''/1/b''" for broken
    by (simp_all add: example_world_def)
  have parsed: "\<forall>u \<in> set ?urls. \<not> isl (urlparse_path (example_world broken) u)" for broken
    using paths by simp
  have each_once: "yields_each_once (example_world broken) (length ?urls)" for broken
    by (simp add: yields_each_once_def example_world_def upt_conv_Cons)
  have md: "mkdir (example_world broken) p = None" for broken p
    by (simp add: example_world_def)
  have pool: "ThreadPoolExecutor (max_image_workers default_config) = None"
    by (simp add: ThreadPoolExecutor_def default_config_def DEFAULT_MAX_IMAGE_WORKERS_def)
  have one: "succeeded (snd (download_chapter_images default_config (example_world [''https://cdn/1/b''])
            (example_chapter ''1'') ''Some Manga: 2!'' None)) = 1"
    by code_simp
  have two: "succeeded (snd (download_chapter_images default_config (example_world [])
            (example_chapter ''1'') ''Some Manga: 2!'' None)) = 2"
    by code_simp
  show ?thesis
    using download_chapter_images_success_iff_all_images
        [where config = default_config and manga_title = "''Some Manga: 2!''" and progress = None,
          OF scraped [of "[''https://cdn/1/b'']"] _ parsed [of "[''https://cdn/1/b'']"]
            each_once [of "[''https://cdn/1/b'']"]]
      download_chapter_images_success_iff_all_images
        [where config = default_config and manga_title = "''Some Manga: 2!''" and progress = None,
          OF scraped [of "[]"] _ parsed [of "[]"] each_once [of "[]"]]
      scraped paths each_once one two md pool
    by (auto simp: case_prod_unfold Let_def numeral_2_eq_2)
qed

text \<open>
  Claim C1 as stated fails in two ways. For a chapter without images, all of its zero
  downloads succeeded (\<open>j = k = 0\<close>), yet the guard on the empty list returns a
  failure. And for a chapter whose second image URL is malformed, \<^verbatim>\<open>urlparse\<close> raises
  in the submission loop after the first page has been submitted: that page is
  downloaded (\<open>j = 1\<close> of \<open>k = 2\<close>), but the result counts no image and has no path.
\<close>

theorem download_chapter_images_count_counterexample:
  "scrape_chapter_images (example_world []) (url (example_chapter ''2'')) = Inr [] \<and>
   (case download_chapter_images default_config (example_world [])
           (example_chapter ''2'') ''Some Manga: 2!'' None of
      (Inr result, effects) \<Rightarrow>
        succeeded effects = length ([] :: string list) \<and> \<not> success result
    | (Inl e, effects) \<Rightarrow> False) \<and>
   scrape_chapter_images (example_world []) (url (example_chapter ''4'')) =
     Inr [''https://cdn/1/a.png'', ''https://[bad/2.png''] \<and>
   download_chapter_images default_config (example_world [])
       (example_chapter ''4'') ''Some Manga: 2!'' None =
     (Inr \<lparr>success = False, path = None, error = Some ''Invalid IPv6 URL'', images_count = 0\<rparr>,
      [Scraped ''https://mangapill.com/chapters/4'',
       MadeDir [''./downloads'', ''Some Manga 2'', ''Chapter 4''],
       Downloaded ''https://cdn/1/a.png''
         [''./downloads'', ''Some Manga 2'', ''Chapter 4'', ''001.png''] (Inr True)]) \<and>
   succeeded (snd (download_chapter_images default_config (example_world [])
       (example_chapter ''4'') ''Some Manga: 2!'' None)) = 1"
  by code_simp




subsection \<open>Properties of the file names\<close>

lemma str_nat_below_10: "n < 10 \<Longrightarrow> str_nat n = [digit_char n]"
  by (simp add: str_nat.simps)

lemma str_nat_below_100:
  "10 \<le> n \<Longrightarrow> n < 100 \<Longrightarrow> str_nat n = [digit_char (n div 10), digit_char (n mod 10)]"
  by (subst str_nat.simps) (simp add: str_nat_below_10)

lemma str_nat_below_1000:
  "100 \<le> n \<Longrightarrow> n < 1000 \<Longrightarrow>
   str_nat n = [digit_char (n div 100), digit_char (n div 10 mod 10), digit_char (n mod 10)]"
  by (subst str_nat.simps) (simp add: str_nat_below_100 div_mult2_eq [symmetric])

lemma digit_char_0: "digit_char 0 = CHR ''0''"
  by code_simp

lemma of_char_digit_char: "a < 10 \<Longrightarrow> of_char (digit_char a) = 48 + a"
  by (simp add: digit_char_def)

lemma fmt_03d_three_digits:
  assumes "n < 1000"
  shows "fmt_03d n = [digit_char (n div 100), digit_char (n div 10 mod 10), digit_char (n mod 10)]"
proof -
  consider "n < 10" | "10 \<le> n" "n < 100" | "100 \<le> n"
    by linarith
  then show ?thesis
  proof cases
    case 1
    then show ?thesis
      by (simp add: fmt_03d_def str_nat_below_10 digit_char_0 numeral_3_eq_3)
  next
    case 2
    then show ?thesis
      by (simp add: fmt_03d_def str_nat_below_100 digit_char_0)
  next
    case 3
    then show ?thesis
      using assms by (simp add: fmt_03d_def str_nat_below_1000)
  qed
qed

lemma digit_char_less: "a < 10 \<Longrightarrow> b < 10 \<Longrightarrow> digit_char a < digit_char b \<longleftrightarrow> a < b"
  by (simp add: less_char_def of_char_digit_char)

lemma digit_char_eq: "a < 10 \<Longrightarrow> b < 10 \<Longrightarrow> digit_char a = digit_char b \<longleftrightarrow> a = b"
  by (metis of_char_digit_char add_left_cancel)

lemma three_digit_decomposition:
  "(n::nat) = 100 * (n div 100) + 10 * (n div 10 mod 10) + n mod 10"
proof -
  have "n div 10 div 10 = n div 100"
    by (simp add: div_mult2_eq [symmetric])
  then have "n div 10 = 10 * (n div 100) + n div 10 mod 10"
    by (metis mult_div_mod_eq)
  moreover have "n = 10 * (n div 10) + n mod 10"
    by simp
  ultimately show ?thesis by linarith
qed

lemma lex_of_less:
  fixes a1 b1 c1 a2 b2 c2 :: nat
  assumes "100 * a1 + 10 * b1 + c1 < 100 * a2 + 10 * b2 + c2"
    and "b1 < 10" "c1 < 10" "b2 < 10" "c2 < 10"
  shows "a1 < a2 \<or> a1 = a2 \<and> (b1 < b2 \<or> b1 = b2 \<and> c1 < c2)"
  using assms by linarith

lemma fmt_03d_less:
  assumes "m < n" "n < 1000"
  shows "fmt_03d m < fmt_03d n"
proof -
  have m: "m < 1000" using assms by simp
  have d: "m div 100 < 10" "n div 100 < 10" "m div 10 mod 10 < 10" "n div 10 mod 10 < 10"
    "m mod 10 < 10" "n mod 10 < 10"
    using assms by simp_all
  have "100 * (m div 100) + 10 * (m div 10 mod 10) + m mod 10
      < 100 * (n div 100) + 10 * (n div 10 mod 10) + n mod 10"
    using assms(1) three_digit_decomposition [of m] three_digit_decomposition [of n] by simp
  then have "m div 100 < n div 100 \<or>
      m div 100 = n div 100 \<and>
        (m div 10 mod 10 < n div 10 mod 10 \<or> m div 10 mod 10 = n div 10 mod 10 \<and> m mod 10 < n mod 10)"
    by (rule lex_of_less) (simp_all add: d)
  then show ?thesis
    unfolding fmt_03d_three_digits [OF m] fmt_03d_three_digits [OF assms(2)]
    by (simp add: digit_char_less digit_char_eq d)
qed

lemma less_append_same_length:
  fixes xs ys :: "'a::linorder list"
  assumes "xs < ys" "length xs = length ys"
  shows "xs @ u < ys @ v"
  using assms unfolding list_less_def by (simp add: lexord_sufI)

lemma image_filenames_submitted:
  assumes "\<forall>u \<in> set image_urls. \<not> isl (urlparse_path w u)"
  shows "image_filenames
      (snd (submit_images config w chapter_path (Suc 0) image_urls [])) =
    map (\<lambda>(k, u). (fmt_03d k @ projr (image_ext w u), u))
      (zip [Suc 0 ..< Suc 0 + length image_urls] image_urls)"
  unfolding submit_images_parsed [OF assms] image_filenames_def
  by (simp add: case_prod_unfold del: upt_Suc)

lemma image_filenames_length:
  assumes "\<forall>u \<in> set image_urls. \<not> isl (urlparse_path w u)"
  shows "length (image_filenames
      (snd (submit_images config w chapter_path (Suc 0) image_urls []))) =
    length image_urls"
  unfolding image_filenames_submitted [OF assms] by (simp del: upt_Suc)

lemma image_filenames_nth:
  assumes "\<forall>u \<in> set image_urls. \<not> isl (urlparse_path w u)" and "i < length image_urls"
  shows "image_filenames
      (snd (submit_images config w chapter_path (Suc 0) image_urls [])) ! i =
    (fmt_03d (Suc i) @ projr (image_ext w (image_urls ! i)), image_urls ! i)"
proof -
  have "[Suc 0 ..< Suc 0 + length image_urls] ! i = Suc i"
    using assms(2) by (simp del: upt_Suc)
  then show ?thesis
    unfolding image_filenames_submitted [OF assms(1)] using assms(2)
    by (simp del: upt_Suc)
qed

lemma image_filenames_snd:
  assumes "\<forall>u \<in> set image_urls. \<not> isl (urlparse_path w u)"
  shows "map snd (image_filenames
      (snd (submit_images config w chapter_path (Suc 0) image_urls []))) =
    image_urls"
  by (rule nth_equalityI)
    (simp_all add: image_filenames_length [OF assms] image_filenames_nth [OF assms])

lemma image_filenames_strict_sorted:
  assumes parsed: "\<forall>u \<in> set image_urls. \<not> isl (urlparse_path w u)"
    and bound: "length image_urls \<le> 999"
  shows "sorted_wrt (<) (map fst (image_filenames
      (snd (submit_images config w chapter_path (Suc 0) image_urls []))))"
  unfolding sorted_wrt_iff_nth_less
proof (intro allI impI)
  let ?names = "image_filenames
      (snd (submit_images config w chapter_path (Suc 0) image_urls []))"
  fix i j
  assume ij: "i < j" and j: "j < length (map fst ?names)"
  then have j': "j < length image_urls" and i': "i < length image_urls"
    by (simp_all add: image_filenames_length [OF parsed])
  have lt: "fmt_03d (Suc i) < fmt_03d (Suc j)"
    by (rule fmt_03d_less) (use ij j' bound in simp_all)
  have len: "length (fmt_03d (Suc i)) = length (fmt_03d (Suc j))"
    using j' i' bound by (simp add: fmt_03d_three_digits)
  show "map fst ?names ! i < map fst ?names ! j"
    using i' j' less_append_same_length [OF lt len]
    by (simp add: image_filenames_length [OF parsed] image_filenames_nth [OF parsed])
qed

lemma filter_eq_distinct: "distinct ys \<Longrightarrow> k \<in> set ys \<Longrightarrow> filter (\<lambda>x. k = x) ys = [k]"
  by (induction ys) (auto simp: filter_empty_conv)

lemma sort_key_distinct_keys:
  fixes f :: "'a \<Rightarrow> 'k::linorder"
  assumes perm: "mset xs = mset ys" and sorted: "sorted_wrt (<) (map f ys)"
  shows "sort_key f xs = ys"
proof (rule properties_for_sort_key)
  show "mset ys = mset xs" using perm by simp
  show "sorted (map f ys)" using sorted by (simp add: strict_sorted_iff)
  fix k
  assume k: "k \<in> set ys"
  have dist: "distinct (map f ys)" using sorted by (simp add: strict_sorted_iff)
  have inj: "inj_on f (set ys)" using dist by (simp add: distinct_map)
  have ys: "filter (\<lambda>x. f k = f x) ys = [k]"
  proof -
    have "filter (\<lambda>x. f k = f x) ys = filter (\<lambda>x. k = x) ys"
      by (rule filter_cong) (use inj k in \<open>auto dest: inj_onD\<close>)
    also have "\<dots> = [k]"
      using dist k by (simp add: distinct_map filter_eq_distinct)
    finally show ?thesis .
  qed
  have "mset (filter (\<lambda>x. f k = f x) xs) = mset (filter (\<lambda>x. f k = f x) ys)"
    using perm by simp
  then have "mset (filter (\<lambda>x. f k = f x) xs) = {#k#}"
    using ys by simp
  then have "filter (\<lambda>x. f k = f x) xs = [k]"
    by (metis mset_single_iff_right)
  then show "filter (\<lambda>x. f k = f x) ys = filter (\<lambda>x. f k = f x) xs"
    using ys by simp
qed

text \<open>
  Claim C3, for a chapter of at most 999 image URLs that \<^verbatim>\<open>urlparse\<close> accepts. The
  submission loop raises nothing, and the \<open>i\<close>-th URL (counting from 1) gets the file
  name made of the three decimal digits of \<open>i\<close> followed by the extension of the
  URL's path, or \<^verbatim>\<open>.jpg\<close> when the path has none. Sorting the file names
  lexicographically, from any order in which a directory lists them, gives them back in
  the order of the URLs, and sorting the files by name gives back the URLs in their
  original order.
\<close>

theorem submit_images_filenames_reconstruct_order:
  assumes bound: "length image_urls \<le> 999"
    and parsed: "\<forall>u \<in> set image_urls. \<not> isl (urlparse_path w u)"
    and listing: "mset listing = mset (image_filenames
      (snd (submit_images config w chapter_path 1 image_urls [])))"
  shows "fst (submit_images config w chapter_path 1 image_urls []) = None \<and>
    map snd (sort_key fst listing) = image_urls \<and>
    sort (map fst listing) =
      map fst (image_filenames
        (snd (submit_images config w chapter_path 1 image_urls []))) \<and>
    (\<forall>i<length image_urls.
       image_filenames
           (snd (submit_images config w chapter_path 1 image_urls [])) ! i =
         (fmt_03d (Suc i) @
            (let ext = snd (splitext (projr (urlparse_path w (image_urls ! i))))
             in if ext = [] then ''.jpg'' else ext),
          image_urls ! i) \<and>
       fmt_03d (Suc i) =
         [digit_char (Suc i div 100), digit_char (Suc i div 10 mod 10), digit_char (Suc i mod 10)])"
proof (intro conjI allI impI)
  let ?names = "image_filenames
      (snd (submit_images config w chapter_path 1 image_urls []))"
  show "fst (submit_images config w chapter_path 1 image_urls []) = None"
    unfolding submit_images_parsed [OF parsed] by simp
  have sorted: "sorted_wrt (<) (map fst ?names)"
    using image_filenames_strict_sorted [OF parsed bound] by simp
  have "sort_key fst listing = ?names"
    by (rule sort_key_distinct_keys [OF listing sorted])
  then show "map snd (sort_key fst listing) = image_urls"
    using image_filenames_snd [OF parsed] by simp
  have "mset (map fst ?names) = mset (map fst listing)"
    using listing by simp
  then show "sort (map fst listing) = map fst ?names"
    by (rule properties_for_sort) (use sorted in \<open>simp add: strict_sorted_iff\<close>)
next
  fix i
  assume i: "i < length image_urls"
  then have "\<not> isl (urlparse_path w (image_urls ! i))"
    using parsed by simp
  then show "image_filenames
        (snd (submit_images config w chapter_path 1 image_urls [])) ! i =
      (fmt_03d (Suc i) @
         (let ext = snd (splitext (projr (urlparse_path w (image_urls ! i))))
          in if ext = [] then ''.jpg'' else ext),
       image_urls ! i)"
    using image_filenames_nth [OF parsed i] by (simp add: image_ext_parsed)
  show "fmt_03d (Suc i) =
      [digit_char (Suc i div 100), digit_char (Suc i div 10 mod 10), digit_char (Suc i mod 10)]"
    by (rule fmt_03d_three_digits) (use i bound in simp)
qed

text \<open>
  Three pages with the extensions \<^verbatim>\<open>.png\<close>, none and \<^verbatim>\<open>.gz\<close>, listed in another
  order and sorted back.
\<close>

theorem submit_images_filenames_reconstruct_order_witness:
  "length [''https://cdn/1/b.png'', ''https://cdn/1/a'', ''https://cdn/1/c.tar.gz''] \<le> 999 \<and>
   urlparse_path (example_world []) ''https://cdn/1/b.png'' = Inr ''/1/b.png'' \<and>
   urlparse_path (example_world []) ''https://cdn/1/a'' = Inr ''/1/a'' \<and>
   urlparse_path (example_world []) ''https://cdn/1/c.tar.gz'' = Inr ''/1/c.tar.gz'' \<and>
   image_filenames (snd (submit_images default_config (example_world []) [''d''] 1
     [''https://cdn/1/b.png'', ''https://cdn/1/a'', ''https://cdn/1/c.tar.gz''] [])) =
     [(''001.png'', ''https://cdn/1/b.png''), (''002.jpg'', ''https://cdn/1/a''),
      (''003.gz'', ''https://cdn/1/c.tar.gz'')] \<and>
   fst (submit_images default_config (example_world []) [''d''] 1
     [''https://cdn/1/b.png'', ''https://cdn/1/a'', ''https://cdn/1/c.tar.gz''] []) = None \<and>
   map snd (sort_key fst
     [(''003.gz'', ''https://cdn/1/c.tar.gz''), (''001.png'', ''https://cdn/1/b.png''),
      (''002.jpg'', ''https://cdn/1/a'')]) =
     [''https://cdn/1/b.png'', ''https://cdn/1/a'', ''https://cdn/1/c.tar.gz'']"
proof -
  let ?urls = "[''https://cdn/1/b.png'', ''https://cdn/1/a'', ''https://cdn/1/c.tar.gz'']"
  let ?listing = "[(''003.gz'', ''https://cdn/1/c.tar.gz''), (''001.png'', ''https://cdn/1/b.png''),
      (''002.jpg'', ''https://cdn/1/a'')]"
  have names: "image_filenames (snd (submit_images default_config (example_world [])
      [''d''] 1 ?urls [])) =
     [(''001.png'', ''https://cdn/1/b.png''), (''002.jpg'', ''https://cdn/1/a''),
      (''003.gz'', ''https://cdn/1/c.tar.gz'')]"
    by code_simp
  have bound: "length ?urls \<le> 999"
    by simp
  have paths: "urlparse_path (example_world []) ''https://cdn/1/b.png'' = Inr ''/1/b.png''"
    "urlparse_path (example_world []) ''https://cdn/1/a'' = Inr ''/1/a''"
    "urlparse_path (example_world []) ''https://cdn/1/c.tar.gz'' = Inr ''/1/c.tar.gz''"
    by (simp_all add: example_world_def)
  have parsed: "\<forall>u \<in> set ?urls. \<not> isl (urlparse_path (example_world []) u)"
    using paths by simp
  have listing: "mset ?listing = mset (image_filenames (snd (submit_images default_config
      (example_world []) [''d''] 1 ?urls [])))"
    unfolding names by simp
  show ?thesis
    using submit_images_filenames_reconstruct_order [OF bound parsed listing] names bound paths
    by simp
qed

text \<open>
  Claim C3 as stated, for every list of image URLs, fails on a list that holds a
  malformed URL: of three URLs whose second is rejected by \<^verbatim>\<open>urlparse\<close>, the first
  alone is given a file name; the loop raises \<open>ValueError\<close> and neither the second nor
  the third URL is named.
\<close>

theorem submit_images_malformed_url_counterexample:
  "length [''https://cdn/1/a.png'', ''https://[bad/2.png'', ''https://cdn/1/c.png''] \<le> 999 \<and>
   submit_images default_config (example_world []) [''d''] 1
     [''https://cdn/1/a.png'', ''https://[bad/2.png'', ''https://cdn/1/c.png''] [] =
     (Some (Exn ValueError ''Invalid IPv6 URL''), [(''https://cdn/1/a.png'', ''001.png'', Inr True)]) \<and>
   image_filenames (snd (submit_images default_config (example_world []) [''d''] 1
     [''https://cdn/1/a.png'', ''https://[bad/2.png'', ''https://cdn/1/c.png''] [])) =
     [(''001.png'', ''https://cdn/1/a.png'')]"
  by code_simp

subsection \<open>Properties of the chapter selection parser\<close>

lemma parse_part_bounds:
  assumes "parse_part raw total' indices = Inr indices'"
    and "finite indices" and "indices \<subseteq> {0 ..< total'}"
  shows "finite indices' \<and> indices' \<subseteq> {0 ..< total'}"
  using assms
  by (auto simp: parse_part_def Let_def split: if_splits option.splits sum.splits prod.splits)

lemma parse_parts_bounds:
  assumes "parse_parts parts total' indices = Inr indices'"
    and "finite indices" and "indices \<subseteq> {0 ..< total'}"
  shows "finite indices' \<and> indices' \<subseteq> {0 ..< total'}"
  using assms
proof (induction parts arbitrary: indices)
  case Nil
  then show ?case by simp
next
  case (Cons part parts)
  from Cons.prems(1) obtain mid where mid: "parse_part part total' indices = Inr mid"
    and rest: "parse_parts parts total' mid = Inr indices'"
    by (auto split: sum.splits)
  from parse_part_bounds [OF mid Cons.prems(2,3)] Cons.IH [OF rest] show ?case
    by blast
qed

text \<open>
  Whenever the parser returns, its result is sorted ascending, without duplicates, and
  holds 0-based indices below the total.
\<close>

theorem parse_chapter_selection_sorted_indices:
  assumes "parse_chapter_selection selection total' = Inr selected"
  shows "sorted selected \<and> distinct selected \<and> (\<forall>i\<in>set selected. 0 \<le> i \<and> i < total')"
proof -
  from assms obtain indices where ix: "parse_parts (split_comma selection) total' {} = Inr indices"
    and sel: "selected = sorted_list_of_set indices"
    by (auto simp: parse_chapter_selection_def split: sum.splits)
  from parse_parts_bounds [OF ix] have "finite indices" "indices \<subseteq> {0 ..< total'}"
    by simp_all
  then show ?thesis
    unfolding sel by auto
qed

text \<open>The selection \<^verbatim>\<open>1,3,5-7\<close> over ten chapters.\<close>

theorem parse_chapter_selection_sorted_indices_witness:
  "parse_chapter_selection ''1,3,5-7'' 10 = Inr [0, 2, 4, 5, 6] \<and>
   sorted [0, 2, 4, 5, 6 :: int] \<and> distinct [0, 2, 4, 5, 6 :: int] \<and>
   list_all (\<lambda>i. 0 \<le> i \<and> i < 10) [0, 2, 4, 5, 6 :: int]"
proof -
  have run: "parse_chapter_selection ''1,3,5-7'' 10 = Inr [0, 2, 4, 5, 6]"
    by code_simp
  show ?thesis
    using parse_chapter_selection_sorted_indices [OF run] run by simp
qed

text \<open>
  Examples that the parser meets: the selection \<^verbatim>\<open>1,3,5-7\<close>, the
  reversed range \<^verbatim>\<open>3-1\<close>, and a range past the total, which is reported as out of
  bounds.
\<close>

theorem parse_chapter_selection_examples:
  "parse_chapter_selection ''1,3,5-7'' 10 = Inr [0, 2, 4, 5, 6] \<and>
   parse_chapter_selection ''3-1'' 10 = Inl (Exn ValueError ''Invalid range: 3 > 1'') \<and>
   parse_chapter_selection ''5-11'' 10 = Inl (Exn ValueError ''Range 5-11 out of bounds (1-10)'')"
  by code_simp

text \<open>
  Claim C6 at the selection \<^verbatim>\<open>11\<close> over ten chapters. The bounds check raises its
  out-of-bounds \<open>ValueError\<close> inside the \<^verbatim>\<open>try\<close> block whose
  \<^verbatim>\<open>except ValueError\<close> replaces it: what reaches the caller is the error of a
  malformed number, not the out-of-bounds error.
\<close>

theorem parse_chapter_selection_single_past_total:
  "parse_chapter_selection ''11'' 10 = Inl (Exn ValueError ''Invalid chapter number: 11'') \<and>
   parse_chapter_selection ''11'' 10 \<noteq> Inl (Exn ValueError ''Chapter 11 out of bounds (1-10)'')"
  by code_simp

subsection \<open>Properties of the configuration\<close>

lemma apply_choice_workers_valid: "workers_valid config \<Longrightarrow> workers_valid (apply_choice config choice)"
  by (cases "(config, choice)" rule: apply_choice.cases) (auto simp: workers_valid_def)

lemma prompt_settings_menu_Cons:
  "prompt_settings_menu config (choice # rest) =
     (if choice = SaveAndExit then config else prompt_settings_menu (apply_choice config choice) rest)"
  by (cases choice) simp_all

text \<open>
  The settings menu clamps what the user types: a configuration whose two worker
  counts are at least 1 keeps that property through any session of the menu.
\<close>

theorem prompt_settings_menu_keeps_workers_valid:
  "workers_valid config \<Longrightarrow> workers_valid (prompt_settings_menu config choices)"
proof (induction choices arbitrary: config)
  case Nil
  then show ?case by simp
next
  case (Cons choice rest)
  have "workers_valid (apply_choice config choice)"
    by (rule apply_choice_workers_valid [OF Cons.prems])
  then have "workers_valid (prompt_settings_menu (apply_choice config choice) rest)"
    by (rule Cons.IH)
  then show ?case
    using Cons.prems unfolding prompt_settings_menu_Cons by simp
qed

text \<open>Typing 0 chapter workers and 50 image workers stores 1 and 20.\<close>

theorem prompt_settings_menu_keeps_workers_valid_witness:
  "workers_valid default_config \<and>
   prompt_settings_menu default_config [MaxChapterWorkers 0, MaxImageWorkers 50, SaveAndExit] =
     default_config\<lparr>max_chapter_workers := 1, max_image_workers := 20\<rparr> \<and>
   workers_valid (prompt_settings_menu default_config [MaxChapterWorkers 0, MaxImageWorkers 50, SaveAndExit])"
proof -
  have v: "workers_valid default_config"
    by (simp add: workers_valid_def default_config_def DEFAULT_MAX_CHAPTER_WORKERS_def
        DEFAULT_MAX_IMAGE_WORKERS_def)
  show ?thesis
    using prompt_settings_menu_keeps_workers_valid [OF v, of "[MaxChapterWorkers 0, MaxImageWorkers 50, SaveAndExit]"] v
    by simp
qed

text \<open>
  Claim C7 at a configuration file that holds \<^verbatim>\<open>{"max_chapter_workers": 0}\<close>.
  \<^verbatim>\<open>from_dict\<close> stores the value as it is, where the settings menu would have clamped
  it to 1, and the pool of the download engine refuses that worker count.
\<close>

theorem load_config_keeps_unchecked_workers:
  "\<not> workers_valid (load_config (Holds
       \<lparr>output_dir_entry = None, output_format_entry = None, keep_images_entry = None,
        max_chapter_workers_entry = Some 0, max_image_workers_entry = None,
        retry_count_entry = None, retry_base_delay_entry = None\<rparr>)) \<and>
   max_chapter_workers (load_config (Holds
       \<lparr>output_dir_entry = None, output_format_entry = None, keep_images_entry = None,
        max_chapter_workers_entry = Some 0, max_image_workers_entry = None,
        retry_count_entry = None, retry_base_delay_entry = None\<rparr>)) = 0 \<and>
   ThreadPoolExecutor 0 = Some (Exn ValueError ''max_workers must be greater than 0'')"
  by (simp add: workers_valid_def from_dict_def dict_get_def ThreadPoolExecutor_def)

subsection \<open>Properties of cancellation\<close>













subsection \<open>Properties of the converters\<close>

text \<open>
  Claim C10 at a folder holding one RGBA page, when the PDF cannot be written.
  \<^verbatim>\<open>convert_to_pdf\<close> returns \<open>None\<close>, but the temporary JPEG copy it saved into the
  image folder is still there: the temporary files are removed only after a successful
  write, so the folder's contents are not unchanged after the failure.
\<close>

theorem convert_to_pdf_failure_leaves_temp_file:
  "convert_to_pdf full_disk rgba_folder [''downloads'', ''Manga'', ''Chapter 1''] None True =
     (Inr None,
      \<lparr>is_directory = True, names = [''001.png'', ''001.temp.jpg''],
       archive = Some ([''downloads'', ''Manga'', ''Chapter 1.pdf''], False)\<rparr>) \<and>
   names (snd (convert_to_pdf full_disk rgba_folder [''downloads'', ''Manga'', ''Chapter 1''] None True))
     \<noteq> names rgba_folder"
  by code_simp

text \<open>
  \<^verbatim>\<open>convert_to_cbz\<close>: when it returns \<open>None\<close> the image folder and the files in it
  are as before; they change only when the archive was written completely and
  \<open>keep_images\<close> is false; and it returns, rather than raises, whenever the folder can
  be listed.
\<close>

theorem convert_to_cbz_failure_keeps_folder:
  "(let (result, fs') = convert_to_cbz env fs image_folder output_path keep_images'
    in (result = Inr None \<longrightarrow> is_directory fs' = is_directory fs \<and> names fs' = names fs) \<and>
       (is_directory fs' \<noteq> is_directory fs \<or> names fs' \<noteq> names fs \<longrightarrow>
          \<not> keep_images' \<and> (\<exists>p. result = Inr (Some p) \<and> archive fs' = Some (p, True))) \<and>
       (iterdir_error env = None \<longrightarrow> (\<exists>p. result = Inr p)))"
  by (auto simp: convert_to_cbz_def remove_folder_def Let_def split: option.splits)

text \<open>The archive of the example folder on a full disk, and on a disk with room.\<close>

theorem convert_to_cbz_failure_keeps_folder_witness:
  "convert_to_cbz full_disk rgba_folder [''downloads'', ''Manga'', ''Chapter 1''] None False =
     (Inr None, rgba_folder\<lparr>archive := Some ([''downloads'', ''Manga'', ''Chapter 1.cbz''], False)\<rparr>) \<and>
   convert_to_cbz (full_disk\<lparr>write_error := None\<rparr>) rgba_folder
       [''downloads'', ''Manga'', ''Chapter 1''] None False =
     (Inr (Some [''downloads'', ''Manga'', ''Chapter 1.cbz'']),
      \<lparr>is_directory = False, names = [],
       archive = Some ([''downloads'', ''Manga'', ''Chapter 1.cbz''], True)\<rparr>)"
proof -
  have a: "convert_to_cbz full_disk rgba_folder [''downloads'', ''Manga'', ''Chapter 1''] None False =
     (Inr None, rgba_folder\<lparr>archive := Some ([''downloads'', ''Manga'', ''Chapter 1.cbz''], False)\<rparr>)"
    by code_simp
  have b: "convert_to_cbz (full_disk\<lparr>write_error := None\<rparr>) rgba_folder
       [''downloads'', ''Manga'', ''Chapter 1''] None False =
     (Inr (Some [''downloads'', ''Manga'', ''Chapter 1.cbz'']),
      \<lparr>is_directory = False, names = [],
       archive = Some ([''downloads'', ''Manga'', ''Chapter 1.cbz''], True)\<rparr>)"
    by code_simp
  show ?thesis
    using convert_to_cbz_failure_keeps_folder
        [of full_disk rgba_folder "[''downloads'', ''Manga'', ''Chapter 1'']" None False]
      convert_to_cbz_failure_keeps_folder
        [of "full_disk\<lparr>write_error := None\<rparr>" rgba_folder "[''downloads'', ''Manga'', ''Chapter 1'']" None False]
      a b
    by simp
qed

text \<open>
  \<^verbatim>\<open>convert_to_pdf\<close> removes the image folder only when the PDF was written
  completely and \<open>keep_images\<close> is false, and it returns, rather than raises, whenever
  the folder can be listed.
\<close>

theorem convert_to_pdf_removes_folder_only_after_success:
  "(let (result, fs') = convert_to_pdf env fs image_folder output_path keep_images'
    in (is_directory fs \<and> \<not> is_directory fs' \<longrightarrow>
          \<not> keep_images' \<and> (\<exists>p. result = Inr (Some p) \<and> archive fs' = Some (p, True))) \<and>
       (iterdir_error env = None \<longrightarrow> (\<exists>p. result = Inr p)))"
  by (auto simp: convert_to_pdf_def remove_folder_def Let_def split: option.splits prod.splits)

text \<open>The example folder converted with \<open>keep_images\<close> false on a disk with room.\<close>

theorem convert_to_pdf_removes_folder_only_after_success_witness:
  "convert_to_pdf (full_disk\<lparr>write_error := None\<rparr>) rgba_folder
       [''downloads'', ''Manga'', ''Chapter 1''] None False =
     (Inr (Some [''downloads'', ''Manga'', ''Chapter 1.pdf'']),
      \<lparr>is_directory = False, names = [],
       archive = Some ([''downloads'', ''Manga'', ''Chapter 1.pdf''], True)\<rparr>) \<and>
   is_directory rgba_folder"
proof -
  have b: "convert_to_pdf (full_disk\<lparr>write_error := None\<rparr>) rgba_folder
       [''downloads'', ''Manga'', ''Chapter 1''] None False =
     (Inr (Some [''downloads'', ''Manga'', ''Chapter 1.pdf'']),
      \<lparr>is_directory = False, names = [],
       archive = Some ([''downloads'', ''Manga'', ''Chapter 1.pdf''], True)\<rparr>)"
    by code_simp
  have c: "is_directory rgba_folder"
    by (simp add: rgba_folder_def)
  show ?thesis
    using convert_to_pdf_removes_folder_only_after_success
        [of "full_disk\<lparr>write_error := None\<rparr>" rgba_folder "[''downloads'', ''Manga'', ''Chapter 1'']" None False]
      b c
    by simp
qed

subsection \<open>Properties of the batch download\<close>

lemma batch_step_bound:
  assumes "int (length (executing s)) \<le> pool_size s"
  shows "int (length (executing (batch_step s e))) \<le> pool_size (batch_step s e) \<and>
    pool_size (batch_step s e) = pool_size s \<and> units_total (batch_step s e) = units_total s"
proof (cases e)
  case SubmitNext
  then show ?thesis using assms by (simp add: units_total_def split: list.splits)
next
  case (StartUnit c)
  then show ?thesis using assms
    by (auto simp: units_total_def worker_available_def length_remove1 intro: Suc_pred
        dest: length_pos_if_in_set)
next
  case (FinishUnit c)
  then show ?thesis using assms
    by (auto simp: units_total_def length_remove1 dest: length_pos_if_in_set)
next
  case (CollectUnit c)
  then show ?thesis using assms
    by (auto simp: units_total_def length_remove1 dest: length_pos_if_in_set)
qed

lemma batch_exec_bound:
  assumes "int (length (executing s)) \<le> pool_size s"
  shows "int (length (executing (batch_exec s schedule))) \<le> pool_size s \<and>
    units_total (batch_exec s schedule) = units_total s"
  using assms unfolding batch_exec_def
proof (induction schedule arbitrary: s)
  case Nil
  then show ?case by simp
next
  case (Cons e schedule)
  from batch_step_bound [OF Cons.prems, of e] Cons.IH [of "batch_step s e"] show ?case
    by simp
qed

text \<open>
  Claim C9. In a batch of \<open>n\<close> chapters whose pool could be created with the worker
  limit \<open>W = max_chapter_workers\<close>, and for every schedule of the submission loop, of
  the pool and of the collection loop, the number of chapter units executing at once is
  at most \<open>min n W\<close>; every one of the \<open>n\<close> units stays accounted for.
\<close>

theorem download_chapters_concurrency_bound:
  assumes start: "download_chapters_start config n = Inr s0"
  shows "int (length (executing (batch_exec s0 schedule))) \<le>
      min (int n) (max_chapter_workers config) \<and>
    units_total (batch_exec s0 schedule) = n"
proof -
  have s0: "s0 = \<lparr>pool_size = max_chapter_workers config, chapters_left = [0 ..< n], waiting = [],
      executing = [], completed_units = [], collected = []\<rparr>"
    and pool: "0 < max_chapter_workers config"
    using start
    by (auto simp: download_chapters_start_def ThreadPoolExecutor_def split: if_splits)
  have "int (length (executing s0)) \<le> pool_size s0"
    using pool by (simp add: s0)
  then have bound: "int (length (executing (batch_exec s0 schedule))) \<le> pool_size s0"
    and total: "units_total (batch_exec s0 schedule) = units_total s0"
    using batch_exec_bound by blast+
  have "units_total s0 = n"
    by (simp add: s0 units_total_def)
  then have n: "units_total (batch_exec s0 schedule) = n"
    using total by simp
  then have "length (executing (batch_exec s0 schedule)) \<le> n"
    by (simp add: units_total_def)
  then show ?thesis
    using bound n by (simp add: s0)
qed

text \<open>
  Five chapters with the default limit of three workers: when all five units are
  submitted and the pool is asked to start four of them, three are executing and two are
  waiting. Two chapters with the same limit: both execute, the limit is not reached.
\<close>

theorem download_chapters_concurrency_bound_witness:
  "(case download_chapters_start default_config 5 of
      Inl e \<Rightarrow> False
    | Inr s0 \<Rightarrow>
        (let s = batch_exec s0 [SubmitNext, SubmitNext, SubmitNext, SubmitNext, SubmitNext,
                   StartUnit 0, StartUnit 1, StartUnit 2, StartUnit 3]
         in executing s = [0, 1, 2] \<and> waiting s = [3, 4] \<and>
            int (length (executing s)) \<le> min 5 (max_chapter_workers default_config) \<and>
            units_total s = 5)) \<and>
   (case download_chapters_start default_config 2 of
      Inl e \<Rightarrow> False
    | Inr s0 \<Rightarrow>
        (let s = batch_exec s0 [SubmitNext, SubmitNext, StartUnit 0, StartUnit 1, StartUnit 2]
         in executing s = [0, 1] \<and>
            int (length (executing s)) \<le> min 2 (max_chapter_workers default_config)))"
proof -
  let ?s5 = "\<lparr>pool_size = 3, chapters_left = [0 ..< 5], waiting = [],
      executing = [], completed_units = [], collected = []\<rparr>"
  let ?s2 = "\<lparr>pool_size = 3, chapters_left = [0 ..< 2], waiting = [],
      executing = [], completed_units = [], collected = []\<rparr>"
  let ?sched5 = "[SubmitNext, SubmitNext, SubmitNext, SubmitNext, SubmitNext,
      StartUnit 0, StartUnit 1, StartUnit 2, StartUnit 3]"
  let ?sched2 = "[SubmitNext, SubmitNext, StartUnit 0, StartUnit 1, StartUnit 2]"
  have start5: "download_chapters_start default_config 5 = Inr ?s5"
    and start2: "download_chapters_start default_config 2 = Inr ?s2"
    by (simp_all add: download_chapters_start_def ThreadPoolExecutor_def default_config_def
        DEFAULT_MAX_CHAPTER_WORKERS_def)
  have run: "executing (batch_exec ?s5 ?sched5) = [0, 1, 2]"
    "waiting (batch_exec ?s5 ?sched5) = [3, 4]"
    "executing (batch_exec ?s2 ?sched2) = [0, 1]"
    by code_simp+
  show ?thesis
    using download_chapters_concurrency_bound [OF start5, of ?sched5]
      download_chapters_concurrency_bound [OF start2, of ?sched2] run
    unfolding start5 start2 by (simp add: Let_def)
qed

end
